theory Spec2Isabelle
  imports Complex_Main
begin

section \<open>Numbers and one-dimensional tensors\<close>

text \<open>
  The script computes on torch tensors of floats. The embedding uses exact real
  arithmetic for the finite values and one extra value for everything that is not a
  finite number: \<open>None\<close> stands for NaN or an infinity. The only places where the
  script can leave the finite numbers are written out: a division by zero (the mean
  of an empty tensor, the standard deviation of a tensor with fewer than two
  elements) and the square root of a negative number. Every operation is strict in
  \<open>None\<close>; rounding is not modelled.
\<close>

type_synonym fnum = "real option"

text \<open>The exceptions (subclasses of Python's \<open>Exception\<close>) the script can meet.\<close>

datatype exn =
    OSError
  | JSONDecodeError
  | UnpicklingError
  | KeyError
  | IndexError
  | TypeError
  | RuntimeError
  | ZeroDivisionError
  | AssertionError

definition fneg :: "fnum \<Rightarrow> fnum" where
  "fneg a = (case a of None \<Rightarrow> None | Some x \<Rightarrow> Some (- x))"

definition fadd :: "fnum \<Rightarrow> fnum \<Rightarrow> fnum" where
  "fadd a b = (case a of None \<Rightarrow> None | Some x \<Rightarrow> (case b of None \<Rightarrow> None | Some y \<Rightarrow> Some (x + y)))"

definition fsub :: "fnum \<Rightarrow> fnum \<Rightarrow> fnum" where
  "fsub a b = (case a of None \<Rightarrow> None | Some x \<Rightarrow> (case b of None \<Rightarrow> None | Some y \<Rightarrow> Some (x - y)))"

definition fmul :: "fnum \<Rightarrow> fnum \<Rightarrow> fnum" where
  "fmul a b = (case a of None \<Rightarrow> None | Some x \<Rightarrow> (case b of None \<Rightarrow> None | Some y \<Rightarrow> Some (x * y)))"

text \<open>Float division does not raise: \<open>x / 0\<close> is an infinity or NaN.\<close>

definition fdiv :: "fnum \<Rightarrow> fnum \<Rightarrow> fnum" where
  "fdiv a b = (case a of None \<Rightarrow> None | Some x \<Rightarrow>
     (case b of None \<Rightarrow> None | Some y \<Rightarrow> if y = 0 then None else Some (x / y)))"

definition fsqrt :: "fnum \<Rightarrow> fnum" where
  "fsqrt a = (case a of None \<Rightarrow> None | Some x \<Rightarrow> if x < 0 then None else Some (sqrt x))"

text \<open>\<open>Tensor.sum()\<close> of a one-dimensional tensor; the empty sum is 0.\<close>

fun tsum :: "fnum list \<Rightarrow> fnum" where
  "tsum [] = Some 0"
| "tsum (x # xs) = fadd x (tsum xs)"

text \<open>\<open>Tensor.mean()\<close>: the sum over the number of elements; NaN on the empty tensor.\<close>

definition tmean :: "fnum list \<Rightarrow> fnum" where
  "tmean xs = fdiv (tsum xs) (Some (real (length xs)))"

text \<open>
  \<open>Tensor.std()\<close> with torch's default arguments: the sample standard deviation
  with Bessel's correction, \<open>sqrt (sum ((x - mean)^2) / max 0 (N - 1))\<close>. It is NaN
  for fewer than two elements. The subtraction \<open>length xs - 1\<close> is on \<open>nat\<close> and
  stops at 0, as torch's \<open>max 0 (N - 1)\<close> does.
\<close>

definition tstd :: "fnum list \<Rightarrow> fnum" where
  "tstd xs =
     (let m = tmean xs;
          sq = map (\<lambda>x. fmul (fsub x m) (fsub x m)) xs
      in fsqrt (fdiv (tsum sq) (Some (real (length xs - 1)))))"

text \<open>
  Elementwise product of two one-dimensional tensors with torch's broadcasting: equal
  lengths multiply index by index, a tensor of one element is stretched, and any other
  pair of lengths raises \<open>RuntimeError\<close>.
\<close>

definition tmul :: "fnum list \<Rightarrow> fnum list \<Rightarrow> exn + fnum list" where
  "tmul xs ys =
     (if length xs = length ys then Inr (map2 fmul xs ys)
      else if length xs = 1 then Inr (map (fmul (hd xs)) ys)
      else if length ys = 1 then Inr (map (\<lambda>x. fmul x (hd ys)) xs)
      else Inl RuntimeError)"

section \<open>The GRPO objective\<close>

text \<open>
  \<^verbatim>\<open>
  def grpo_loss(log_ratios, advantages, kl_beta):
      policy_objective = - (advantages * log_ratios).mean()
      kl_penalty = kl_beta * log_ratios.mean()
      return policy_objective + kl_penalty
  \<close>
\<close>

definition policy_objective :: "fnum list \<Rightarrow> fnum list \<Rightarrow> exn + fnum" where
  "policy_objective log_ratios advantages =
     (case tmul advantages log_ratios of
        Inl e \<Rightarrow> Inl e
      | Inr p \<Rightarrow> Inr (fneg (tmean p)))"

definition kl_penalty :: "fnum list \<Rightarrow> real \<Rightarrow> fnum" where
  "kl_penalty log_ratios kl_beta = fmul (Some kl_beta) (tmean log_ratios)"

definition grpo_loss :: "fnum list \<Rightarrow> fnum list \<Rightarrow> real \<Rightarrow> exn + fnum" where
  "grpo_loss log_ratios advantages kl_beta =
     (case policy_objective log_ratios advantages of
        Inl e \<Rightarrow> Inl e
      | Inr po \<Rightarrow> Inr (fadd po (kl_penalty log_ratios kl_beta)))"

section \<open>Advantages\<close>

text \<open>
  \<^verbatim>\<open>
  CONFIG = { ..., "epsilon_std": 1e-8 }
  advantages = (rewards - rewards.mean()) / (rewards.std() + CONFIG["epsilon_std"])
  \<close>
  The mean and the standard deviation are zero-dimensional tensors; the subtraction
  and the division stretch them over the batch. The script computes this line on
  32-bit floats; here it is the formula over exact reals, without rounding.
\<close>

definition CONFIG_epsilon_std :: real where
  "CONFIG_epsilon_std = 1 / 10 ^ 8"

definition advantages_of :: "fnum list \<Rightarrow> fnum list" where
  "advantages_of rewards =
     (let m = tmean rewards;
          d = fadd (tstd rewards) (Some CONFIG_epsilon_std)
      in map (\<lambda>r. fdiv (fsub r m) d) rewards)"

text \<open>
  Two notions used to state properties, not part of the script: the mean and the
  Bessel-corrected standard deviation of a list of reals, and closeness of a computed
  number (or vector) to a quoted decimal within a tolerance.
\<close>

definition mean_r :: "real list \<Rightarrow> real" where
  "mean_r xs = sum_list xs / real (length xs)"

definition std_r :: "real list \<Rightarrow> real" where
  "std_r xs = sqrt (sum_list (map (\<lambda>x. (x - mean_r xs) * (x - mean_r xs)) xs) / real (length xs - 1))"

definition approx :: "fnum \<Rightarrow> real \<Rightarrow> real \<Rightarrow> bool" where
  "approx a v tol = (case a of None \<Rightarrow> False | Some x \<Rightarrow> \<bar>x - v\<bar> \<le> tol)"

fun approx_list :: "fnum list \<Rightarrow> real list \<Rightarrow> real \<Rightarrow> bool" where
  "approx_list [] [] tol = True"
| "approx_list (a # as) (v # vs) tol = (approx a v tol \<and> approx_list as vs tol)"
| "approx_list _ _ tol = False"

section \<open>The likelihood evaluator\<close>

text \<open>
  \<^verbatim>\<open>
  def calculate_nll(model, tokenizer, sequences, device):
      loss_fn = torch.nn.CrossEntropyLoss(reduction='none', ignore_index=tokenizer.pad_id)
      tokenized_list = [torch.tensor(tokenizer.tokenizeMSA(s)) for s in sequences]
      tokenized_batch = pad_sequence(tokenized_list, batch_first=True,
                                     padding_value=tokenizer.pad_id).to(device)
      masked_input = torch.full_like(tokenized_batch, tokenizer.mask_id)
      lengths = torch.tensor([len(s) for s in sequences], device=device)
      logits = model(masked_input, lengths)
      loss_per_token = loss_fn(logits.permute(0, 2, 1), tokenized_batch)
      mask = (tokenized_batch != tokenizer.pad_id).float()
      nll_per_sequence = (loss_per_token * mask).sum(dim=1)
      return nll_per_sequence
  \<close>
  The tokenizer and the model come from the evodiff package and are parameters here.
  A model maps the masked batch (rows of token ids) and the lengths to logits indexed
  by row, position and class, or raises. Logits are finite reals.

  \<open>torch.tensor\<close> of an empty list is a tensor of floats, and \<open>pad_sequence\<close>
  gives its result the element type of the first row. So when the first sequence has
  no tokens the padded batch holds floats, and the loss, which takes class indices as
  integers, raises \<open>RuntimeError\<close> once the model has returned. An empty row
  after a first row that is not empty is copied into a batch of integers and does not
  raise.
\<close>

record tokenizer =
  alphabet :: string
  pad_id :: nat
  mask_id :: nat
  tokenizeMSA :: "string \<Rightarrow> nat list"

type_synonym model = "nat list list \<Rightarrow> nat list \<Rightarrow> exn + real list list list"

text \<open>The first error of a list of results, or all the values.\<close>

fun collect :: "(exn + 'a) list \<Rightarrow> exn + 'a list" where
  "collect [] = Inr []"
| "collect (r # rs) =
     (case r of
        Inl e \<Rightarrow> Inl e
      | Inr x \<Rightarrow> (case collect rs of Inl e \<Rightarrow> Inl e | Inr xs \<Rightarrow> Inr (x # xs)))"

definition max_len :: "nat list list \<Rightarrow> nat" where
  "max_len rows = foldr (\<lambda>row m. max (length row) m) rows 0"

text \<open>
  \<open>pad_sequence\<close> with \<open>batch_first=True\<close>: every row is extended on the right
  with the padding value to the longest row. An empty list of rows raises
  \<open>RuntimeError\<close>.
\<close>

definition pad_sequence :: "nat list list \<Rightarrow> nat \<Rightarrow> exn + nat list list" where
  "pad_sequence rows padding_value =
     (if rows = [] then Inl RuntimeError
      else Inr (map (\<lambda>row. row @ replicate (max_len rows - length row) padding_value) rows))"

definition log_sum_exp :: "real list \<Rightarrow> real" where
  "log_sum_exp z = ln (sum_list (map exp z))"

text \<open>
  Cross entropy of one position, \<open>reduction='none'\<close>: 0 where the target is the
  ignore index, \<open>IndexError\<close> where the target is not a class, and otherwise
  \<open>- log (softmax z) [t] = log_sum_exp z - z [t]\<close>.
\<close>

definition cross_entropy_token :: "nat \<Rightarrow> real list \<Rightarrow> nat \<Rightarrow> exn + real" where
  "cross_entropy_token ignore_index z t =
     (if t = ignore_index then Inr 0
      else if length z \<le> t then Inl IndexError
      else Inr (log_sum_exp z - z ! t))"

definition row_loss :: "nat \<Rightarrow> real list list \<Rightarrow> nat list \<Rightarrow> exn + real list" where
  "row_loss ignore_index logits_row target_row =
     collect (map2 (cross_entropy_token ignore_index) logits_row target_row)"

text \<open>
  The loss over the batch. The logits must have one row per target row and one
  position per target position; any other shape raises \<open>RuntimeError\<close>.
\<close>

definition loss_fn :: "nat \<Rightarrow> real list list list \<Rightarrow> nat list list \<Rightarrow> exn + real list list" where
  "loss_fn ignore_index logits target =
     (if length logits \<noteq> length target
         \<or> \<not> list_all2 (\<lambda>lr tr. length lr = length tr) logits target
      then Inl RuntimeError
      else collect (map2 (row_loss ignore_index) logits target))"

definition row_nll :: "nat \<Rightarrow> real list \<Rightarrow> nat list \<Rightarrow> real" where
  "row_nll pad loss_row target_row =
     sum_list (map2 (*) loss_row (map (\<lambda>t. if t \<noteq> pad then 1 else 0) target_row))"

definition calculate_nll :: "model \<Rightarrow> tokenizer \<Rightarrow> string list \<Rightarrow> exn + real list" where
  "calculate_nll model tok sequences =
     (let tokenized_list = map (tokenizeMSA tok) sequences in
      case pad_sequence tokenized_list (pad_id tok) of
        Inl e \<Rightarrow> Inl e
      | Inr tokenized_batch \<Rightarrow>
          (let masked_input = map (map (\<lambda>t. mask_id tok)) tokenized_batch;
               lengths = map length sequences
           in case model masked_input lengths of
                Inl e \<Rightarrow> Inl e
              | Inr logits \<Rightarrow>
                  if hd tokenized_list = [] then Inl RuntimeError
                  else
                    (case loss_fn (pad_id tok) logits tokenized_batch of
                       Inl e \<Rightarrow> Inl e
                     | Inr loss_per_token \<Rightarrow>
                         Inr (map2 (row_nll (pad_id tok)) loss_per_token tokenized_batch))))"

text \<open>
  In the training step:
  \<^verbatim>\<open>
  policy_log_likelihood = -policy_nll
  ref_log_likelihood = -ref_nll
  log_ratios = policy_log_likelihood - ref_log_likelihood
  \<close>
  The subtraction broadcasts as the product does.
\<close>

definition tsub :: "fnum list \<Rightarrow> fnum list \<Rightarrow> exn + fnum list" where
  "tsub xs ys =
     (if length xs = length ys then Inr (map2 fsub xs ys)
      else if length xs = 1 then Inr (map (fsub (hd xs)) ys)
      else if length ys = 1 then Inr (map (\<lambda>x. fsub x (hd ys)) xs)
      else Inl RuntimeError)"

definition log_ratios_of :: "real list \<Rightarrow> real list \<Rightarrow> exn + fnum list" where
  "log_ratios_of policy_nll ref_nll =
     (let policy_log_likelihood = map (\<lambda>x. fneg (Some x)) policy_nll;
          ref_log_likelihood = map (\<lambda>x. fneg (Some x)) ref_nll
      in tsub policy_log_likelihood ref_log_likelihood)"

text \<open>
  Used to state properties of the evaluator, not part of the script: the masked batch
  the model is called on, whether a model's logits for one sequence are the same
  alone and inside a batch, and a tokenizer and two models for examples. The logits
  of \<open>width_model\<close> depend on the padded width of the row, as those of a network
  that reads the padding positions do; those of \<open>flat_model\<close> do not.
\<close>

definition model_input :: "tokenizer \<Rightarrow> string list \<Rightarrow> nat list list" where
  "model_input tok sequences =
     (let rows = map (tokenizeMSA tok) sequences
      in map (\<lambda>row. replicate (max_len rows) (mask_id tok)) rows)"

definition padding_invariant_at :: "model \<Rightarrow> tokenizer \<Rightarrow> string list \<Rightarrow> nat \<Rightarrow> bool" where
  "padding_invariant_at model tok sequences i =
     (case model (model_input tok sequences) (map length sequences) of
        Inl e \<Rightarrow> True
      | Inr logits \<Rightarrow>
          model (model_input tok [sequences ! i]) [length (sequences ! i)] =
            Inr [take (length (tokenizeMSA tok (sequences ! i))) (logits ! i)])"

definition example_tokenizer :: tokenizer where
  "example_tokenizer =
     \<lparr>alphabet = ''AB'', pad_id = 1, mask_id = 2, tokenizeMSA = map (\<lambda>c. 0)\<rparr>"

definition flat_model :: model where
  "flat_model masked_input lengths = Inr (map (map (\<lambda>t. [0, 0])) masked_input)"

definition width_model :: model where
  "width_model masked_input lengths =
     Inr (map (\<lambda>row. map (\<lambda>t. [0, real (length row) - 1]) row) masked_input)"

section \<open>The scoring oracle bridge\<close>

text \<open>
  \<^verbatim>\<open>
  def get_reward(sequences, target_sequence, af2_predict_fn, output_root):
      rewards = []
      os.makedirs(output_root, exist_ok=True)
      for i, binder_seq in enumerate(sequences):
          try:
              fasta_path = os.path.join(output_root, f"seq_{i}.fasta")
              with open(fasta_path, "w") as f:
                  f.write(">target\n" + target_sequence.strip() + "\n")
                  f.write(">binder\n" + binder_seq.strip() + "\n")
              job_dir = os.path.join(output_root, f"job_{i}")
              os.makedirs(job_dir, exist_ok=True)
              af2_predict_fn(fasta_path, job_dir)
              with open(os.path.join(job_dir, "ranking_debug.json")) as f:
                  rank_data = json.load(f)
                  model_name = rank_data["order"][0]
                  iptm = rank_data["ranking_confidences"][model_name]
              with open(os.path.join(job_dir, f"result_{model_name}.pkl"), "rb") as f:
                  result = pickle.load(f)
                  avg_plddt = float(result["plddt"].mean())
              reward = iptm + 0.1 * avg_plddt
              rewards.append(reward)
          except Exception as e:
              print(f"[!] Error in sequence {i}: {e}")
              rewards.append(-100.0)
      return torch.tensor(rewards, dtype=torch.float, device=device)
  \<close>
  The file system, the predictor and the standard output are outside the script.
  Their state is a value of an arbitrary type \<open>'w\<close>, threaded through every call;
  each call returns its result or the exception it raises, and the state it leaves. An
  exception here is an instance of \<open>Exception\<close>, the class the handler catches;
  interrupts and exits are not modelled. The parsed ranking file is an object whose
  two keys may be missing; a value of the wrong type in the file is an exception of
  the load. \<open>print_error i e\<close> is the \<open>print\<close> of the handler, which formats the
  exception and writes a line; like every call it can raise.
\<close>

type_synonym ('a, 'w) io = "'w \<Rightarrow> (exn + 'a) \<times> 'w"

record rank_data =
  order :: "string list option"
  ranking_confidences :: "(string \<Rightarrow> real option) option"

record af2_result =
  plddt :: "real list option"

record 'w sys =
  makedirs :: "string \<Rightarrow> (unit, 'w) io"
  write_text :: "string \<Rightarrow> string \<Rightarrow> (unit, 'w) io"
  json_load :: "string \<Rightarrow> (rank_data, 'w) io"
  pickle_load :: "string \<Rightarrow> (af2_result, 'w) io"
  print_error :: "nat \<Rightarrow> exn \<Rightarrow> (unit, 'w) io"

type_synonym 'w predictor = "string \<Rightarrow> string \<Rightarrow> (unit, 'w) io"

text \<open>Sequencing of calls: the first exception ends the sequence.\<close>

definition bind_io :: "('a, 'w) io \<Rightarrow> ('a \<Rightarrow> ('b, 'w) io) \<Rightarrow> ('b, 'w) io" where
  "bind_io m f w = (case m w of (Inl e, w') \<Rightarrow> (Inl e, w') | (Inr a, w') \<Rightarrow> f a w')"

definition return_io :: "exn + 'a \<Rightarrow> ('a, 'w) io" where
  "return_io r w = (r, w)"

text \<open>
  \<open>try: m except Exception as e: h e\<close>. The handler runs in the state the body
  left when it raised, and what the handler raises is not caught.
\<close>

definition catch_io :: "('a, 'w) io \<Rightarrow> (exn \<Rightarrow> ('a, 'w) io) \<Rightarrow> ('a, 'w) io" where
  "catch_io m h w = (case m w of (Inl e, w') \<Rightarrow> h e w' | (Inr a, w') \<Rightarrow> (Inr a, w'))"

text \<open>The decimal numeral of a natural number, as an f-string prints it.\<close>

definition digit_char :: "nat \<Rightarrow> char" where
  "digit_char d = ''0123456789'' ! d"

fun show_nat :: "nat \<Rightarrow> string" where
  "show_nat n = (if n < 10 then [digit_char n] else show_nat (n div 10) @ [digit_char (n mod 10)])"

declare show_nat.simps [simp del]

text \<open>\<open>os.path.join\<close> of two components on a POSIX system.\<close>

definition path_join :: "string \<Rightarrow> string \<Rightarrow> string" where
  "path_join a b =
     (if b \<noteq> [] \<and> hd b = CHR ''/'' then b
      else if a = [] \<or> last a = CHR ''/'' then a @ b
      else a @ ''/'' @ b)"

text \<open>
  \<open>str.strip()\<close>. A character here is a code point below 256; the whitespace
  among them is 9 to 13, 28 to 32, 133 (next line) and 160 (no-break space).
\<close>

definition is_space :: "char \<Rightarrow> bool" where
  "is_space c = ((of_char c :: nat) \<in> {9, 10, 11, 12, 13, 28, 29, 30, 31, 32, 133, 160})"

definition strip :: "string \<Rightarrow> string" where
  "strip s = rev (dropWhile is_space (rev (dropWhile is_space s)))"

definition fasta_text :: "string \<Rightarrow> string \<Rightarrow> string" where
  "fasta_text target_sequence binder_seq =
     (''>target'' @ [CHR 0x0A] @ strip target_sequence @ [CHR 0x0A]) @
     (''>binder'' @ [CHR 0x0A] @ strip binder_seq @ [CHR 0x0A])"

text \<open>
  \<open>rank_data["order"][0]\<close> and \<open>rank_data["ranking_confidences"][model_name]\<close>:
  \<open>KeyError\<close> on a missing key, \<open>IndexError\<close> on an empty order.
\<close>

definition top_ranked :: "rank_data \<Rightarrow> exn + string \<times> real" where
  "top_ranked rank_data =
     (case order rank_data of
        None \<Rightarrow> Inl KeyError
      | Some names \<Rightarrow>
          (case names of
             [] \<Rightarrow> Inl IndexError
           | model_name # others \<Rightarrow>
               (case ranking_confidences rank_data of
                  None \<Rightarrow> Inl KeyError
                | Some confidences \<Rightarrow>
                    (case confidences model_name of
                       None \<Rightarrow> Inl KeyError
                     | Some iptm \<Rightarrow> Inr (model_name, iptm)))))"

text \<open>
  \<open>float(result["plddt"].mean())\<close>: \<open>KeyError\<close> on a missing key; the mean of
  an empty array is NaN and does not raise.
\<close>

definition avg_plddt_of :: "af2_result \<Rightarrow> exn + fnum" where
  "avg_plddt_of result =
     (case plddt result of None \<Rightarrow> Inl KeyError | Some a \<Rightarrow> Inr (tmean (map Some a)))"

text \<open>The body of the \<open>try\<close> for sequence \<open>i\<close>.\<close>

definition score_sequence ::
  "'w sys \<Rightarrow> 'w predictor \<Rightarrow> string \<Rightarrow> string \<Rightarrow> nat \<Rightarrow> string \<Rightarrow> (fnum, 'w) io" where
  "score_sequence sys af2_predict_fn target_sequence output_root i binder_seq =
     (let fasta_path = path_join output_root (''seq_'' @ show_nat i @ ''.fasta'');
          job_dir = path_join output_root (''job_'' @ show_nat i)
      in bind_io (write_text sys fasta_path (fasta_text target_sequence binder_seq)) (\<lambda>u1.
         bind_io (makedirs sys job_dir) (\<lambda>u2.
         bind_io (af2_predict_fn fasta_path job_dir) (\<lambda>u3.
         bind_io (json_load sys (path_join job_dir ''ranking_debug.json'')) (\<lambda>rank_data.
         bind_io (return_io (top_ranked rank_data)) (\<lambda>(model_name, iptm).
         bind_io (pickle_load sys (path_join job_dir (''result_'' @ model_name @ ''.pkl''))) (\<lambda>result.
         bind_io (return_io (avg_plddt_of result)) (\<lambda>avg_plddt.
         return_io (Inr (fadd (Some iptm) (fmul (Some 0.1) avg_plddt)))))))))))"

text \<open>
  The \<open>try\<close> statement for sequence \<open>i\<close>, as the value appended to
  \<open>rewards\<close>: the reward the body computed, or, when the body raised, the sentinel
  after the handler has printed its line.
\<close>

definition try_sequence ::
  "'w sys \<Rightarrow> 'w predictor \<Rightarrow> string \<Rightarrow> string \<Rightarrow> nat \<Rightarrow> string \<Rightarrow> (fnum, 'w) io" where
  "try_sequence sys af2_predict_fn target_sequence output_root i binder_seq =
     catch_io (score_sequence sys af2_predict_fn target_sequence output_root i binder_seq)
       (\<lambda>e. bind_io (print_error sys i e) (\<lambda>u. return_io (Inr (Some (- 100)))))"

text \<open>The loop over \<open>enumerate(sequences)\<close>, from index \<open>i\<close> on.\<close>

fun reward_loop ::
  "'w sys \<Rightarrow> 'w predictor \<Rightarrow> string \<Rightarrow> string \<Rightarrow> nat \<Rightarrow> string list \<Rightarrow> (fnum list, 'w) io" where
  "reward_loop sys af2_predict_fn target_sequence output_root i [] = return_io (Inr [])"
| "reward_loop sys af2_predict_fn target_sequence output_root i (binder_seq # rest) =
     bind_io (try_sequence sys af2_predict_fn target_sequence output_root i binder_seq) (\<lambda>reward.
     bind_io (reward_loop sys af2_predict_fn target_sequence output_root (Suc i) rest) (\<lambda>rewards.
     return_io (Inr (reward # rewards))))"

definition get_reward ::
  "'w sys \<Rightarrow> string list \<Rightarrow> string \<Rightarrow> 'w predictor \<Rightarrow> string \<Rightarrow> (fnum list, 'w) io" where
  "get_reward sys sequences target_sequence af2_predict_fn output_root =
     bind_io (makedirs sys output_root) (\<lambda>u.
       reward_loop sys af2_predict_fn target_sequence output_root 0 sequences)"

text \<open>
  Used to state properties of the bridge, not part of the script: the outcome of the
  body for sequence \<open>i\<close> in the state in which the loop reaches it, started in
  state \<open>w\<close> after the output root was created; whether the body for a sequence
  gives the same outcome under two sets of collaborators whatever the state it is
  started in; and file systems and predictors for examples. In the example every
  ranking file names \<open>model_1\<close> with confidence 0.5 and every result holds the
  per-residue confidences 80 and 90; the predictor raises for job 1. In
  \<open>readonly_sys\<close> no directory can be created; in \<open>closed_output_sys\<close> nothing
  can be printed. The state of \<open>crashing_predictor\<close> and \<open>steady_predictor\<close>
  records whether the predictor has crashed: once it has, every later job fails;
  the first crashes on job 0, the second never crashes by itself.
\<close>

definition outcome_at ::
  "'w sys \<Rightarrow> 'w predictor \<Rightarrow> string \<Rightarrow> string \<Rightarrow> string list \<Rightarrow> 'w \<Rightarrow> nat \<Rightarrow> exn + fnum" where
  "outcome_at sys af2_predict_fn target_sequence output_root sequences w i =
     fst (score_sequence sys af2_predict_fn target_sequence output_root i (sequences ! i)
            (snd (reward_loop sys af2_predict_fn target_sequence output_root 0 (take i sequences) w)))"

definition same_outcome_in_every_state ::
  "'w sys \<Rightarrow> 'w predictor \<Rightarrow> 'v sys \<Rightarrow> 'v predictor \<Rightarrow> string \<Rightarrow> string \<Rightarrow> nat \<Rightarrow> string \<Rightarrow> bool" where
  "same_outcome_in_every_state sys af2 sys' af2' target_sequence output_root j binder_seq =
     (\<forall>w v. fst (score_sequence sys af2 target_sequence output_root j binder_seq w) =
            fst (score_sequence sys' af2' target_sequence output_root j binder_seq v))"

definition example_sys :: "'w sys" where
  "example_sys =
     \<lparr>makedirs = (\<lambda>path. return_io (Inr ())),
      write_text = (\<lambda>path content. return_io (Inr ())),
      json_load = (\<lambda>path. return_io (Inr
        \<lparr>order = Some [''model_1''],
         ranking_confidences = Some (\<lambda>name. if name = ''model_1'' then Some 0.5 else None)\<rparr>)),
      pickle_load = (\<lambda>path. return_io (Inr \<lparr>plddt = Some [80, 90]\<rparr>)),
      print_error = (\<lambda>i e. return_io (Inr ()))\<rparr>"

definition example_predictor :: "'w predictor" where
  "example_predictor fasta_path job_dir =
     (if job_dir = ''out/job_1'' then return_io (Inl RuntimeError) else return_io (Inr ()))"

definition readonly_sys :: "'w sys" where
  "readonly_sys = example_sys\<lparr>makedirs := (\<lambda>path. return_io (Inl OSError))\<rparr>"

definition closed_output_sys :: "'w sys" where
  "closed_output_sys = example_sys\<lparr>print_error := (\<lambda>i e. return_io (Inl OSError))\<rparr>"

definition crashing_predictor :: "bool predictor" where
  "crashing_predictor fasta_path job_dir crashed =
     (if crashed \<or> job_dir = ''out/job_0'' then (Inl RuntimeError, True) else (Inr (), crashed))"

definition steady_predictor :: "bool predictor" where
  "steady_predictor fasta_path job_dir crashed =
     (if crashed then (Inl RuntimeError, True) else (Inr (), crashed))"

section \<open>The training orchestrator\<close>

text \<open>
  \<^verbatim>\<open>
  CONFIG = {
      "kl_beta": 0.1, "learning_rate": 1e-6, "rl_epochs": 30, "steps_per_epoch": 100,
      "batch_size": 32, "seq_len": 100, "adam_betas": (0.9, 0.98), "epsilon": 1e-8,
      "weight_decay": 0.01, "epsilon_std": 1e-8,
  }
  \<close>
\<close>

definition CONFIG_kl_beta :: real where "CONFIG_kl_beta = 0.1"
definition CONFIG_learning_rate :: real where "CONFIG_learning_rate = 1 / 10 ^ 6"
definition CONFIG_batch_size :: nat where "CONFIG_batch_size = 32"
definition CONFIG_seq_len :: nat where "CONFIG_seq_len = 100"
definition CONFIG_adam_betas :: "real \<times> real" where "CONFIG_adam_betas = (0.9, 0.98)"
definition CONFIG_epsilon :: real where "CONFIG_epsilon = 1 / 10 ^ 8"
definition CONFIG_weight_decay :: real where "CONFIG_weight_decay = 0.01"

text \<open>
  The collaborators of \<open>main\<close> that are not in the script: the loader of the
  pretrained model, the network's forward pass (a function of the parameters and of
  the train/eval mode), the generator, the gradient of the loss with respect to the
  policy parameters, the AdamW update, \<open>torch.save\<close>, the file system and
  \<open>os.system\<close>. Parameters, gradients and optimizer state are values of arbitrary
  types.
\<close>

record ('p, 'g, 'o, 'w) ext =
  OA_DM_38M :: "('p \<times> tokenizer, 'w) io"
  forward :: "'p \<Rightarrow> bool \<Rightarrow> model"
  generate_oaardm :: "'p \<Rightarrow> tokenizer \<Rightarrow> nat \<Rightarrow> nat \<Rightarrow> (string list, 'w) io"
  backward :: "'p \<Rightarrow> string list \<Rightarrow> fnum list \<Rightarrow> real list \<Rightarrow> real \<Rightarrow> exn + 'g"
  adamw_init :: 'o
  adamw_step :: "real \<Rightarrow> real \<times> real \<Rightarrow> real \<Rightarrow> real \<Rightarrow> 'p \<Rightarrow> 'g \<Rightarrow> 'o \<Rightarrow> exn + 'p \<times> 'o"
  torch_save :: "'p \<Rightarrow> string \<Rightarrow> (unit, 'w) io"
  os_ops :: "'w sys"
  os_system :: "string \<Rightarrow> (unit, 'w) io"

text \<open>
  The models are objects: the policy and the reference are two addresses in a heap of
  modules, so that the optimizer, which holds the addresses it was constructed over,
  can only change what is stored there. \<open>checkpoints\<close> lists the completed
  \<open>torch.save\<close> calls in order, each with its directory and the parameters saved.
\<close>

record ('p, 'g) module =
  params :: 'p
  requires_grad :: bool
  training :: bool
  grad :: "'g option"

record ('p, 'g, 'o, 'w) state =
  heap :: "nat \<Rightarrow> ('p, 'g) module option"
  next_addr :: nat
  world :: 'w
  opt_params :: "nat list"
  opt_state :: 'o
  total_loss :: fnum
  all_rewards :: "fnum list"
  checkpoints :: "(string \<times> 'p) list"

definition init_state :: "'o \<Rightarrow> 'w \<Rightarrow> ('p, 'g, 'o, 'w) state" where
  "init_state o0 w =
     \<lparr>heap = (\<lambda>a. None), next_addr = 0, world = w, opt_params = [], opt_state = o0,
      total_loss = Some 0, all_rewards = [], checkpoints = []\<rparr>"

definition lift_world :: "('a, 'w) io \<Rightarrow> ('a, ('p, 'g, 'o, 'w) state) io" where
  "lift_world m st = (case m (world st) of (r, w') \<Rightarrow> (r, st\<lparr>world := w'\<rparr>))"

definition modify :: "('s \<Rightarrow> 's) \<Rightarrow> (unit, 's) io" where
  "modify f st = (Inr (), f st)"

text \<open>Reading a module; an address that holds none does not arise in \<open>main\<close>.\<close>

definition read_module :: "nat \<Rightarrow> (('p, 'g) module, ('p, 'g, 'o, 'w) state) io" where
  "read_module a st = (case heap st a of None \<Rightarrow> (Inl RuntimeError, st) | Some m \<Rightarrow> (Inr m, st))"

definition update_module ::
  "nat \<Rightarrow> (('p, 'g) module \<Rightarrow> ('p, 'g) module) \<Rightarrow> ('p, 'g, 'o, 'w) state \<Rightarrow> ('p, 'g, 'o, 'w) state" where
  "update_module a f st = st\<lparr>heap := (heap st)(a := map_option f (heap st a))\<rparr>"

text \<open>
  \<open>model, _, tokenizer, _ = OA_DM_38M()\<close>: a new module at a fresh address, in
  training mode and with gradients required, as torch creates modules.
\<close>

definition load_model ::
  "('p, 'g, 'o, 'w) ext \<Rightarrow> (nat \<times> tokenizer, ('p, 'g, 'o, 'w) state) io" where
  "load_model ext st =
     (case OA_DM_38M ext (world st) of
        (Inl e, w') \<Rightarrow> (Inl e, st\<lparr>world := w'\<rparr>)
      | (Inr (p, tok), w') \<Rightarrow>
          (Inr (next_addr st, tok),
           st\<lparr>world := w',
              heap := (heap st)(next_addr st \<mapsto>
                 \<lparr>params = p, requires_grad = True, training = True, grad = None\<rparr>),
              next_addr := Suc (next_addr st)\<rparr>))"

text \<open>
  \<^verbatim>\<open>
  def af2_predict_fn(fasta_path, output_dir):
      os.system(f"run_af2_multimer.sh {fasta_path} {output_dir}")
  \<close>
\<close>

definition af2_predict_fn :: "('p, 'g, 'o, 'w) ext \<Rightarrow> 'w predictor" where
  "af2_predict_fn ext fasta_path output_dir =
     os_system ext (''run_af2_multimer.sh '' @ fasta_path @ '' '' @ output_dir)"

text \<open>\<open>optimizer.zero_grad()\<close> and \<open>optimizer.step()\<close>, over the addresses the optimizer holds.\<close>

definition zero_grad :: "('p, 'g, 'o, 'w) state \<Rightarrow> ('p, 'g, 'o, 'w) state" where
  "zero_grad st = fold (\<lambda>a. update_module a (\<lambda>m. m\<lparr>grad := None\<rparr>)) (opt_params st) st"

fun optimizer_step_loop ::
  "('p, 'g, 'o, 'w) ext \<Rightarrow> nat list \<Rightarrow> (unit, ('p, 'g, 'o, 'w) state) io" where
  "optimizer_step_loop ext [] st = (Inr (), st)"
| "optimizer_step_loop ext (a # as) st =
     (case heap st a of
        None \<Rightarrow> optimizer_step_loop ext as st
      | Some m \<Rightarrow>
          (case grad m of
             None \<Rightarrow> optimizer_step_loop ext as st
           | Some g \<Rightarrow>
               (case adamw_step ext CONFIG_learning_rate CONFIG_adam_betas CONFIG_epsilon
                       CONFIG_weight_decay (params m) g (opt_state st) of
                  Inl e \<Rightarrow> (Inl e, st)
                | Inr (p', o') \<Rightarrow>
                    optimizer_step_loop ext as
                      ((update_module a (\<lambda>m. m\<lparr>params := p'\<rparr>) st)\<lparr>opt_state := o'\<rparr>))))"

definition optimizer_step :: "('p, 'g, 'o, 'w) ext \<Rightarrow> (unit, ('p, 'g, 'o, 'w) state) io" where
  "optimizer_step ext st = optimizer_step_loop ext (opt_params st) st"

text \<open>
  \<open>loss.backward()\<close>: the policy negative log-likelihood is the only part of the loss
  computed with gradients enabled, so the gradient goes to the policy module; a loss
  that requires no gradient raises \<open>RuntimeError\<close>.
\<close>

definition loss_backward ::
  "('p, 'g, 'o, 'w) ext \<Rightarrow> nat \<Rightarrow> string list \<Rightarrow> fnum list \<Rightarrow> real list \<Rightarrow>
   (unit, ('p, 'g, 'o, 'w) state) io" where
  "loss_backward ext policy_model gen_seqs advantages ref_nll st =
     (case heap st policy_model of
        None \<Rightarrow> (Inl RuntimeError, st)
      | Some m \<Rightarrow>
          if \<not> requires_grad m then (Inl RuntimeError, st)
          else (case backward ext (params m) gen_seqs advantages ref_nll CONFIG_kl_beta of
                  Inl e \<Rightarrow> (Inl e, st)
                | Inr g \<Rightarrow> (Inr (), update_module policy_model (\<lambda>m. m\<lparr>grad := Some g\<rparr>) st)))"

text \<open>
  One pass of the body of \<open>for step in pbar\<close>:
  \<^verbatim>\<open>
  policy_model.eval()
  with torch.no_grad():
      _, gen_seqs = generate_oaardm(model=policy_model, tokenizer=tokenizer,
          seq_len=CONFIG["seq_len"], batch_size=CONFIG["batch_size"], device=device)
  rewards = get_reward(gen_seqs, target_sequence, af2_predict_fn, output_root)
  all_rewards.extend(rewards.cpu().numpy())
  with torch.no_grad():
      advantages = (rewards - rewards.mean()) / (rewards.std() + CONFIG["epsilon_std"])
  policy_model.train()
  policy_nll = calculate_nll(policy_model, tokenizer, gen_seqs, device)
  with torch.no_grad():
      ref_nll = calculate_nll(ref_model, tokenizer, gen_seqs, device)
  policy_log_likelihood = -policy_nll
  ref_log_likelihood = -ref_nll
  log_ratios = policy_log_likelihood - ref_log_likelihood
  optimizer.zero_grad()
  loss = grpo_loss(log_ratios, advantages, CONFIG["kl_beta"])
  loss.backward()
  optimizer.step()
  total_loss += loss.item()
  avg_reward = sum(all_rewards) / len(all_rewards)
  \<close>
\<close>

definition train_step ::
  "('p, 'g, 'o, 'w) ext \<Rightarrow> tokenizer \<Rightarrow> string \<Rightarrow> string \<Rightarrow> nat \<Rightarrow> nat \<Rightarrow>
   (unit, ('p, 'g, 'o, 'w) state) io" where
  "train_step ext tok target_sequence output_root policy_model ref_model =
     bind_io (modify (update_module policy_model (\<lambda>m. m\<lparr>training := False\<rparr>))) (\<lambda>u1.
     bind_io (read_module policy_model) (\<lambda>pm.
     bind_io (lift_world (generate_oaardm ext (params pm) tok CONFIG_seq_len CONFIG_batch_size)) (\<lambda>gen_seqs.
     bind_io (lift_world (get_reward (os_ops ext) gen_seqs target_sequence (af2_predict_fn ext) output_root)) (\<lambda>rewards.
     bind_io (modify (\<lambda>st. st\<lparr>all_rewards := all_rewards st @ rewards\<rparr>)) (\<lambda>u2.
     bind_io (modify (update_module policy_model (\<lambda>m. m\<lparr>training := True\<rparr>))) (\<lambda>u3.
     bind_io (return_io (calculate_nll (forward ext (params pm) True) tok gen_seqs)) (\<lambda>policy_nll.
     bind_io (read_module ref_model) (\<lambda>rm.
     bind_io (return_io (calculate_nll (forward ext (params rm) (training rm)) tok gen_seqs)) (\<lambda>ref_nll.
     bind_io (return_io (log_ratios_of policy_nll ref_nll)) (\<lambda>log_ratios.
     bind_io (modify zero_grad) (\<lambda>u4.
     bind_io (return_io (grpo_loss log_ratios (advantages_of rewards) CONFIG_kl_beta)) (\<lambda>loss.
     bind_io (loss_backward ext policy_model gen_seqs (advantages_of rewards) ref_nll) (\<lambda>u5.
     bind_io (optimizer_step ext) (\<lambda>u6.
     bind_io (modify (\<lambda>st. st\<lparr>total_loss := fadd (total_loss st) loss\<rparr>)) (\<lambda>u7.
     (\<lambda>st. if all_rewards st = [] then (Inl ZeroDivisionError, st) else (Inr (), st)))))))))))))))))"

text \<open>\<open>for i in range(n)\<close>, from index \<open>i\<close> with \<open>n\<close> passes left.\<close>

fun for_range :: "nat \<Rightarrow> nat \<Rightarrow> (nat \<Rightarrow> (unit, 's) io) \<Rightarrow> (unit, 's) io" where
  "for_range i 0 body = return_io (Inr ())"
| "for_range i (Suc n) body = bind_io (body i) (\<lambda>u. for_range (Suc i) n body)"

definition checkpoint_dir :: "nat \<Rightarrow> string" where
  "checkpoint_dir epoch = ''evodiff_grpo_checkpoint_epoch_'' @ show_nat (epoch + 1)"

text \<open>
  One pass of the body of \<open>for epoch in range(...)\<close>, with \<open>steps\<close> steps:
  \<^verbatim>\<open>
  total_loss = 0
  all_rewards = []
  for step in pbar: ...
  avg_epoch_loss = total_loss / CONFIG["steps_per_epoch"]
  avg_epoch_reward = sum(all_rewards) / len(all_rewards)
  output_dir = f"evodiff_grpo_checkpoint_epoch_{epoch+1}"
  os.makedirs(output_dir, exist_ok=True)
  torch.save(policy_model.state_dict(), os.path.join(output_dir, "policy_model.pt"))
  \<close>
  Dividing the integer 0 by a step count of 0, or by the length of an empty list,
  raises \<open>ZeroDivisionError\<close>.
\<close>

definition run_epoch ::
  "('p, 'g, 'o, 'w) ext \<Rightarrow> tokenizer \<Rightarrow> string \<Rightarrow> string \<Rightarrow> nat \<Rightarrow> nat \<Rightarrow> nat \<Rightarrow> nat \<Rightarrow>
   (unit, ('p, 'g, 'o, 'w) state) io" where
  "run_epoch ext tok target_sequence output_root policy_model ref_model steps epoch =
     bind_io (modify (\<lambda>st. st\<lparr>total_loss := Some 0, all_rewards := []\<rparr>)) (\<lambda>u1.
     bind_io (for_range 0 steps
                (\<lambda>step. train_step ext tok target_sequence output_root policy_model ref_model)) (\<lambda>u2.
     bind_io (\<lambda>st. if steps = 0 \<or> all_rewards st = [] then (Inl ZeroDivisionError, st)
                    else (Inr (), st)) (\<lambda>u3.
     bind_io (lift_world (makedirs (os_ops ext) (checkpoint_dir epoch))) (\<lambda>u4.
     bind_io (read_module policy_model) (\<lambda>pm.
     bind_io (lift_world (torch_save ext (params pm)
                (path_join (checkpoint_dir epoch) ''policy_model.pt''))) (\<lambda>u5.
     modify (\<lambda>st. st\<lparr>checkpoints := checkpoints st @ [(checkpoint_dir epoch, params pm)]\<rparr>)))))))"

definition target_sequence_GZMK :: string where
  "target_sequence_GZMK =
     ''IIGGKEVSPHSRPFMASIQYGGHHVCGGVLIDPQWVLTAAHCQYRFTKGQSPTVVLGAHSLSKNEASKQTLEIKKFIPFSRVTSDPQSNDIMLVKLQTAAKLNKHVKMLHIRSKTSLRSGTKCKVTGWGATDPDSLRPSDTLREVTVTVLSRKLCNSQSYYNGDPFITKDMVCAGDAKGQKDSCKGDSGGPLICKGVFHAIVSGGHECGVATKPGIYTLLTKKYQTWIKSNLVPPHTNDYKDDDDK''"

text \<open>
  \<open>main\<close> with \<open>epochs\<close> epochs of \<open>steps\<close> steps: both models are loaded, the
  alphabets are compared, the reference is frozen and put in evaluation mode, the
  optimizer is constructed over the policy module alone, and the epochs run.
  \<^verbatim>\<open>
  policy_model, _, policy_tokenizer, _ = OA_DM_38M()
  ref_model, _, ref_tokenizer, _ = OA_DM_38M()
  assert policy_tokenizer.alphabet == ref_tokenizer.alphabet, "Tokenizers must be the same"
  tokenizer = policy_tokenizer
  for param in ref_model.parameters():
      param.requires_grad = False
  ref_model.eval()
  optimizer = AdamW(policy_model.parameters(), lr=..., betas=..., eps=..., weight_decay=...)
  for epoch in range(CONFIG["rl_epochs"]): ...
  \<close>
\<close>

definition main_with ::
  "nat \<Rightarrow> nat \<Rightarrow> ('p, 'g, 'o, 'w) ext \<Rightarrow> (unit, ('p, 'g, 'o, 'w) state) io" where
  "main_with epochs steps ext =
     bind_io (load_model ext) (\<lambda>(policy_model, policy_tokenizer).
     bind_io (load_model ext) (\<lambda>(ref_model, ref_tokenizer).
     bind_io (return_io (if alphabet policy_tokenizer = alphabet ref_tokenizer
                         then Inr () else Inl AssertionError)) (\<lambda>u1.
     bind_io (modify (update_module ref_model
                (\<lambda>m. m\<lparr>requires_grad := False, training := False\<rparr>))) (\<lambda>u2.
     bind_io (modify (\<lambda>st. st\<lparr>opt_params := [policy_model], opt_state := adamw_init ext\<rparr>)) (\<lambda>u3.
     for_range 0 epochs
       (run_epoch ext policy_tokenizer target_sequence_GZMK ''af2_multimer_outputs''
          policy_model ref_model steps))))))"


text \<open>
  Used to state and prove properties of the orchestrator, not part of the script:
  \<open>hoare P m Q E\<close> says that from a state satisfying \<open>P\<close> the call \<open>m\<close> ends
  in a state satisfying \<open>Q\<close> when it returns and \<open>E\<close> when it raises.
\<close>

definition hoare :: "('s \<Rightarrow> bool) \<Rightarrow> ('a, 's) io \<Rightarrow> ('a \<Rightarrow> 's \<Rightarrow> bool) \<Rightarrow> ('s \<Rightarrow> bool) \<Rightarrow> bool" where
  "hoare P m Q E =
     (\<forall>st. P st \<longrightarrow> (case m st of (Inl e, st') \<Rightarrow> E st' | (Inr a, st') \<Rightarrow> Q a st'))"



text \<open>
  Collaborators for examples: parameters and gradients are numbers, the loader
  returns the parameter 0, the generator returns the sequences \<open>AB\<close> and \<open>A\<close>,
  the gradient is 1, and the optimizer adds the gradient to the parameter.
\<close>

definition example_ext :: "(nat, nat, unit, unit) ext" where
  "example_ext =
     \<lparr>OA_DM_38M = return_io (Inr (0, example_tokenizer)),
      forward = (\<lambda>p mode. flat_model),
      generate_oaardm = (\<lambda>p tok seq_len batch_size. return_io (Inr [''AB'', ''A''])),
      backward = (\<lambda>p seqs adv ref_nll beta. Inr 1),
      adamw_init = (),
      adamw_step = (\<lambda>rate betas eps decay p g s. Inr (p + g, s)),
      torch_save = (\<lambda>p path. return_io (Inr ())),
      os_ops = example_sys,
      os_system = (\<lambda>command. return_io (Inr ()))\<rparr>"

text \<open>The same collaborators with a generator that raises once the parameter is 1.\<close>

definition failing_ext :: "(nat, nat, unit, unit) ext" where
  "failing_ext =
     example_ext\<lparr>generate_oaardm := (\<lambda>p tok seq_len batch_size.
        if p = 1 then return_io (Inl RuntimeError) else return_io (Inr [''AB'', ''A'']))\<rparr>"

text \<open>The state of the example after both models are loaded and the optimizer is constructed.\<close>

definition example_state :: "(nat, nat, unit, unit) state" where
  "example_state =
     \<lparr>heap = ((\<lambda>a. None)
               (0 \<mapsto> \<lparr>params = 0, requires_grad = True, training = True, grad = None\<rparr>))
               (1 \<mapsto> \<lparr>params = 0, requires_grad = False, training = False, grad = None\<rparr>),
      next_addr = 2, world = (), opt_params = [0], opt_state = (),
      total_loss = Some 0, all_rewards = [], checkpoints = []\<rparr>"

section \<open>Facts about finite tensors\<close>

lemma fneg_simps [simp]: "fneg None = None" "fneg (Some x) = Some (- x)"
  by (simp_all add: fneg_def)

lemma fadd_simps [simp]:
  "fadd None b = None" "fadd a None = None" "fadd (Some x) (Some y) = Some (x + y)"
  by (simp_all add: fadd_def split: option.splits)

lemma fsub_simps [simp]:
  "fsub None b = None" "fsub a None = None" "fsub (Some x) (Some y) = Some (x - y)"
  by (simp_all add: fsub_def split: option.splits)

lemma fmul_simps [simp]:
  "fmul None b = None" "fmul a None = None" "fmul (Some x) (Some y) = Some (x * y)"
  by (simp_all add: fmul_def split: option.splits)

lemma fdiv_simps [simp]:
  "fdiv None b = None" "fdiv a None = None"
  "fdiv (Some x) (Some y) = (if y = 0 then None else Some (x / y))"
  by (simp_all add: fdiv_def split: option.splits)

lemma fsqrt_simps [simp]:
  "fsqrt None = None" "fsqrt (Some x) = (if x < 0 then None else Some (sqrt x))"
  by (simp_all add: fsqrt_def)

lemma tsum_finite: "tsum (map Some xs) = Some (sum_list xs)"
  by (induction xs) simp_all

lemma tsum_finite_comp: "tsum (map (\<lambda>x. Some (f x)) xs) = Some (sum_list (map f xs))"
  by (induction xs) simp_all

lemma tmean_finite:
  "xs \<noteq> [] \<Longrightarrow> tmean (map Some xs) = Some (sum_list xs / real (length xs))"
  by (simp add: tmean_def tsum_finite)

lemma tmean_empty: "tmean [] = None"
  by (simp add: tmean_def)

lemma map2_fmul_finite:
  "length xs = length ys \<Longrightarrow>
   map2 fmul (map Some xs) (map Some ys) = map Some (map2 (*) xs ys)"
  by (induction xs ys rule: list_induct2) simp_all

lemma sum_list_map2_nth:
  "length xs = length ys \<Longrightarrow>
   sum_list (map2 (*) xs ys) = (\<Sum>i<length ys. xs ! i * ys ! i :: real)"
proof (induction xs ys rule: list_induct2)
  case Nil
  then show ?case by simp
next
  case (Cons x xs y ys)
  then show ?case
    by (simp add: lessThan_Suc_eq_insert_0 sum.reindex zero_notin_Suc_image)
qed

lemma sum_list_nth: "sum_list xs = (\<Sum>i<length xs. xs ! i :: real)"
  by (induction xs)
     (simp_all add: lessThan_Suc_eq_insert_0 sum.reindex zero_notin_Suc_image)

section \<open>The GRPO objective is the stated formula\<close>

text \<open>
  Claim C1. For log-ratios and advantages of the same length, \<open>grpo_loss\<close> does not
  raise and returns \<open>- mean (advantage * log_ratio) + kl_beta * mean log_ratio\<close>
  (NaN included: the mean of an empty tensor is NaN). On finite non-empty vectors the
  value is \<open>- (\<Sum>i. adv i * lr i) / n + kl_beta * (\<Sum>i. lr i) / n\<close>. For the
  log-ratios 0.5, -0.5, 0.2, -0.2 the KL penalty is 0 and the loss is the sum of the
  policy objective and that penalty, hence the policy objective itself.
\<close>

theorem grpo_loss_formula:
  "(length advantages = length log_ratios \<longrightarrow>
      grpo_loss log_ratios advantages kl_beta =
        Inr (fadd (fneg (tmean (map2 fmul advantages log_ratios)))
                  (fmul (Some kl_beta) (tmean log_ratios)))) \<and>
   (length adv = length lr \<and> lr \<noteq> [] \<longrightarrow>
      grpo_loss (map Some lr) (map Some adv) kl_beta =
        Inr (Some (- ((\<Sum>i<length lr. adv ! i * lr ! i) / real (length lr))
                   + kl_beta * ((\<Sum>i<length lr. lr ! i) / real (length lr))))) \<and>
   kl_penalty (map Some [0.5, - 0.5, 0.2, - 0.2]) kl_beta = Some 0 \<and>
   (length adv4 = 4 \<longrightarrow>
      grpo_loss (map Some [0.5, - 0.5, 0.2, - 0.2]) (map Some adv4) kl_beta =
        policy_objective (map Some [0.5, - 0.5, 0.2, - 0.2]) (map Some adv4) \<and>
      policy_objective (map Some [0.5, - 0.5, 0.2, - 0.2]) (map Some adv4) =
        Inr (Some (- ((adv4 ! 0 * 0.5 + adv4 ! 1 * (- 0.5) + adv4 ! 2 * 0.2
                        + adv4 ! 3 * (- 0.2)) / 4))))"
proof (intro conjI impI)
  assume "length advantages = length log_ratios"
  then show "grpo_loss log_ratios advantages kl_beta =
           Inr (fadd (fneg (tmean (map2 fmul advantages log_ratios)))
                     (fmul (Some kl_beta) (tmean log_ratios)))"
    by (simp add: grpo_loss_def policy_objective_def kl_penalty_def tmul_def)
next
  assume h: "length adv = length lr \<and> lr \<noteq> []"
  then have ne: "map2 (*) adv lr \<noteq> []" by (cases adv; cases lr) auto
  have len: "length (map2 (*) adv lr) = length lr" using h by simp
  have "tmean (map Some (map2 (*) adv lr)) =
        Some (sum_list (map2 (*) adv lr) / real (length lr))"
    using tmean_finite [OF ne] len by simp
  then have m1: "tmean (map2 fmul (map Some adv) (map Some lr)) =
              Some ((\<Sum>i<length lr. adv ! i * lr ! i) / real (length lr))"
    using h map2_fmul_finite [of adv lr] sum_list_map2_nth [of adv lr] by simp
  have m2: "tmean (map Some lr) = Some ((\<Sum>i<length lr. lr ! i) / real (length lr))"
    using h tmean_finite [of lr] sum_list_nth [of lr] by simp
  show "grpo_loss (map Some lr) (map Some adv) kl_beta =
         Inr (Some (- ((\<Sum>i<length lr. adv ! i * lr ! i) / real (length lr))
                    + kl_beta * ((\<Sum>i<length lr. lr ! i) / real (length lr))))"
    using h m1 m2
    by (simp add: grpo_loss_def policy_objective_def kl_penalty_def tmul_def)
next
  show "kl_penalty (map Some [0.5, - 0.5, 0.2, - 0.2]) kl_beta = Some 0"
    by (simp add: kl_penalty_def tmean_def)
next
  assume l4: "length adv4 = 4"
  have kl: "kl_penalty (map Some [0.5, - 0.5, 0.2, - 0.2]) kl_beta = Some 0"
    by (simp add: kl_penalty_def tmean_def)
  obtain a b c d where adv4: "adv4 = [a, b, c, d]"
    using l4 by (auto simp: length_Suc_conv numeral_eq_Suc)
  show po: "policy_objective (map Some [0.5, - 0.5, 0.2, - 0.2]) (map Some adv4) =
        Inr (Some (- ((adv4 ! 0 * 0.5 + adv4 ! 1 * (- 0.5) + adv4 ! 2 * 0.2
                        + adv4 ! 3 * (- 0.2)) / 4)))"
    by (simp add: adv4 policy_objective_def tmul_def tmean_def)
  show "grpo_loss (map Some [0.5, - 0.5, 0.2, - 0.2]) (map Some adv4) kl_beta =
        policy_objective (map Some [0.5, - 0.5, 0.2, - 0.2]) (map Some adv4)"
    using po kl by (simp add: grpo_loss_def)
qed

theorem grpo_loss_formula_witness:
  "length [1, 2, 3, 4 :: real] = 4 \<and>
   grpo_loss (map Some [0.5, - 0.5, 0.2, - 0.2]) (map Some [1, 2, 3, 4]) 0.1 =
     Inr (Some (7 / 40)) \<and>
   kl_penalty (map Some [0.5, - 0.5, 0.2, - 0.2]) 0.1 = Some 0"
  using grpo_loss_formula [of "map Some [1, 2, 3, 4]" "map Some [0.5, - 0.5, 0.2, - 0.2]"
      "0.1" "[1, 2, 3, 4]" "[0.5, - 0.5, 0.2, - 0.2]" "[1, 2, 3, 4]"]
  by (simp add: tmean_def)

section \<open>Mean, standard deviation and advantages of a finite batch\<close>

lemma tmean_mean_r: "xs \<noteq> [] \<Longrightarrow> tmean (map Some xs) = Some (mean_r xs)"
  by (simp add: tmean_finite mean_r_def)

lemma sumsq_nonneg: "0 \<le> sum_list (map (\<lambda>x. (x - m) * (x - m)) xs :: real list)"
  by (induction xs) simp_all

lemma tstd_std_r:
  assumes "2 \<le> length xs"
  shows "tstd (map Some xs) = Some (std_r xs)"
proof -
  have ne: "xs \<noteq> []" using assms by auto
  have sq: "map (\<lambda>x. fmul (fsub x (Some (mean_r xs))) (fsub x (Some (mean_r xs)))) (map Some xs)
            = map Some (map (\<lambda>x. (x - mean_r xs) * (x - mean_r xs)) xs)"
    by (induction xs) simp_all
  have pos: "0 < real (length xs - 1)" using assms by simp
  have nn: "0 \<le> sum_list (map (\<lambda>x. (x - mean_r xs) * (x - mean_r xs)) xs) / real (length xs - 1)"
    using sumsq_nonneg [of "mean_r xs" xs] pos by simp
  have "tstd (map Some xs) =
        fsqrt (fdiv (tsum (map Some (map (\<lambda>x. (x - mean_r xs) * (x - mean_r xs)) xs)))
                    (Some (real (length xs - 1))))"
    by (simp only: tstd_def Let_def tmean_mean_r [OF ne] sq length_map)
  also have "\<dots> =
        fsqrt (fdiv (Some (sum_list (map (\<lambda>x. (x - mean_r xs) * (x - mean_r xs)) xs)))
                    (Some (real (length xs - 1))))"
    by (simp only: tsum_finite)
  also have "\<dots> = Some (std_r xs)"
    using pos nn by (simp add: std_r_def not_less)
  finally show ?thesis .
qed

lemma std_r_nonneg: "2 \<le> length xs \<Longrightarrow> 0 \<le> std_r xs"
  using sumsq_nonneg [of "mean_r xs" xs] by (simp add: std_r_def)

lemma CONFIG_epsilon_std_pos: "0 < CONFIG_epsilon_std"
  by (simp add: CONFIG_epsilon_std_def)

lemma advantages_finite:
  assumes "2 \<le> length xs"
  shows "advantages_of (map Some xs) =
         map (\<lambda>r. Some ((r - mean_r xs) / (std_r xs + CONFIG_epsilon_std))) xs"
proof -
  have ne: "xs \<noteq> []" using assms by auto
  have d: "std_r xs + CONFIG_epsilon_std \<noteq> 0"
    using std_r_nonneg [OF assms] CONFIG_epsilon_std_pos by linarith
  show ?thesis
    using d by (simp add: advantages_of_def tstd_std_r [OF assms] tmean_mean_r [OF ne] Let_def)
qed

lemma sum_list_const: "(\<forall>r\<in>set rs. r = c) \<Longrightarrow> sum_list rs = real (length rs) * c"
  by (induction rs) (simp_all add: algebra_simps)

lemma mean_r_const:
  assumes "rs \<noteq> []" and "\<forall>r\<in>set rs. r = c"
  shows "mean_r rs = c"
  using assms sum_list_const [of rs c] by (simp add: mean_r_def)

lemma sumsq_const:
  "(\<forall>r\<in>set rs. r = c) \<Longrightarrow> sum_list (map (\<lambda>x. (x - c) * (x - c)) rs) = (0::real)"
  by (induction rs) simp_all

lemma std_r_const:
  assumes "rs \<noteq> []" and "\<forall>r\<in>set rs. r = c"
  shows "std_r rs = 0"
  using assms sumsq_const [of rs c] by (simp add: std_r_def mean_r_const [OF assms])

section \<open>A batch of identical rewards\<close>

text \<open>
  In exact arithmetic, for a batch of at least two rewards that all have the same
  value, the standard deviation is 0, the divisor \<open>std + CONFIG_epsilon_std\<close> is
  \<open>CONFIG_epsilon_std\<close> and not zero, and every advantage is the finite number 0.
  This is a fact about the formula only. The tensors of the script hold 32-bit floats:
  there the mean of equal values can differ from the value in the last place, the
  difference is of the size of \<open>CONFIG_epsilon_std\<close>, and the advantages are then
  not close to 0; rounding is outside this embedding.
\<close>

lemma advantages_identical_exact:
  "2 \<le> length rs \<and> (\<forall>r\<in>set rs. r = c) \<longrightarrow>
     tstd (map Some rs) = Some 0 \<and>
     fadd (tstd (map Some rs)) (Some CONFIG_epsilon_std) = Some CONFIG_epsilon_std \<and>
     CONFIG_epsilon_std \<noteq> 0 \<and>
     advantages_of (map Some rs) = map (\<lambda>r. Some 0) rs"
proof
  assume h: "2 \<le> length rs \<and> (\<forall>r\<in>set rs. r = c)"
  then have len: "2 \<le> length rs" and all: "\<forall>r\<in>set rs. r = c" by simp_all
  have ne: "rs \<noteq> []" using len by auto
  have s0: "std_r rs = 0" by (rule std_r_const [OF ne all])
  have m: "mean_r rs = c" by (rule mean_r_const [OF ne all])
  have std: "tstd (map Some rs) = Some 0"
    using tstd_std_r [OF len] s0 by simp
  have eps: "CONFIG_epsilon_std \<noteq> 0" using CONFIG_epsilon_std_pos by simp
  have "map (\<lambda>r. Some ((r - mean_r rs) / (std_r rs + CONFIG_epsilon_std))) rs = map (\<lambda>r. Some 0) rs"
    using all m by (intro map_cong) simp_all
  then have adv: "advantages_of (map Some rs) = map (\<lambda>r. Some 0) rs"
    using advantages_finite [OF len] by simp
  show "tstd (map Some rs) = Some 0 \<and>
     fadd (tstd (map Some rs)) (Some CONFIG_epsilon_std) = Some CONFIG_epsilon_std \<and>
     CONFIG_epsilon_std \<noteq> 0 \<and>
     advantages_of (map Some rs) = map (\<lambda>r. Some 0) rs"
    using std eps adv by simp
qed

lemma advantages_identical_exact_example:
  "advantages_of [Some 7, Some 7, Some 7] = [Some 0, Some 0, Some 0] \<and>
   tstd [Some 7, Some 7, Some 7] = Some 0"
  using advantages_identical_exact [of "[7, 7, 7]" 7] by simp

section \<open>Advantages are centred and scaled rewards\<close>

lemma sum_list_shift_scale:
  "sum_list (map (\<lambda>r. (r - m) / d) xs) = (sum_list xs - real (length xs) * m) / (d::real)"
  by (induction xs) (simp_all add: algebra_simps diff_divide_distrib add_divide_distrib)

lemma sum_list_centred:
  assumes "xs \<noteq> []"
  shows "sum_list (map (\<lambda>r. (r - mean_r xs) / d) xs) = 0"
  using assms by (simp add: sum_list_shift_scale mean_r_def)

lemma sumsq_scale:
  "sum_list (map (\<lambda>r. ((r - m) / d) * ((r - m) / d)) xs) =
   sum_list (map (\<lambda>r. (r - m) * (r - m)) xs) / (d * (d::real))"
  by (induction xs) (simp_all add: add_divide_distrib)

lemma mean_r_centred:
  assumes "xs \<noteq> []"
  shows "mean_r (map (\<lambda>r. (r - mean_r xs) / d) xs) = 0"
  using sum_list_centred [OF assms, of d] by (simp add: mean_r_def)

lemma std_r_centred:
  assumes "xs \<noteq> []" and "0 < d"
  shows "std_r (map (\<lambda>r. (r - mean_r xs) / d) xs) = std_r xs / d"
proof -
  let ?S = "sum_list (map (\<lambda>r. (r - mean_r xs) * (r - mean_r xs)) xs)"
  have "std_r (map (\<lambda>r. (r - mean_r xs) / d) xs) =
        sqrt (sum_list (map (\<lambda>r. ((r - mean_r xs) / d) * ((r - mean_r xs) / d)) xs)
              / real (length xs - 1))"
    by (simp add: std_r_def mean_r_centred [OF assms(1)] comp_def)
  also have "\<dots> = sqrt (?S / (d * d) / real (length xs - 1))"
    by (simp only: sumsq_scale)
  also have "\<dots> = sqrt ((?S / real (length xs - 1)) / (d * d))"
    by (simp add: field_simps)
  also have "\<dots> = sqrt (?S / real (length xs - 1)) / d"
    using assms(2) by (simp add: real_sqrt_divide real_sqrt_mult)
  finally show ?thesis by (simp add: std_r_def)
qed

lemma sumsq_pos:
  assumes "x \<in> set xs" and "x \<noteq> m"
  shows "0 < sum_list (map (\<lambda>x. (x - m) * (x - m)) xs :: real list)"
  using assms
proof (induction xs)
  case Nil
  then show ?case by simp
next
  case (Cons a xs)
  have nn: "0 \<le> sum_list (map (\<lambda>x. (x - m) * (x - m)) xs)" by (rule sumsq_nonneg)
  have an: "0 \<le> (a - m) * (a - m)" by simp
  show ?case
  proof (cases rule: case_split [of "x = a"])
    case True
    then have "0 < (a - m) * (a - m)" using Cons.prems(2) by (auto simp: zero_less_mult_iff)
    then show ?thesis using nn by simp
  next
    case False
    then have "0 < sum_list (map (\<lambda>x. (x - m) * (x - m)) xs)"
      using Cons by simp
    then show ?thesis using an by (simp add: add_nonneg_pos)
  qed
qed

lemma std_r_pos:
  assumes "2 \<le> length xs" and "i < length xs" and "j < length xs" and "xs ! i \<noteq> xs ! j"
  shows "0 < std_r xs"
proof -
  have "xs ! i \<noteq> mean_r xs \<or> xs ! j \<noteq> mean_r xs" using assms(4) by auto
  then obtain x where x: "x \<in> set xs" "x \<noteq> mean_r xs"
    using assms(2,3) nth_mem by blast
  have "0 < sum_list (map (\<lambda>x. (x - mean_r xs) * (x - mean_r xs)) xs)"
    by (rule sumsq_pos [OF x])
  moreover have "0 < real (length xs - 1)" using assms(1) by simp
  ultimately show ?thesis by (simp add: std_r_def)
qed

text \<open>
  Claim C5. For a batch of at least two finite rewards the advantages have mean
  exactly 0. Every difference of two advantages is the difference of the two rewards
  divided by \<open>std + CONFIG_epsilon_std\<close>, and the standard deviation of the advantages is
  \<open>std / (std + CONFIG_epsilon_std)\<close>: the spread of the advantages is the spread of
  the rewards scaled by one positive factor. When two rewards differ, the standard
  deviation of the rewards and that of the advantages are positive.
\<close>

theorem advantages_zero_mean_and_spread:
  "2 \<le> length rs \<longrightarrow>
     tmean (advantages_of (map Some rs)) = Some 0 \<and>
     tstd (map Some rs) = Some (std_r rs) \<and>
     (\<forall>i<length rs. \<forall>j<length rs.
        fsub (advantages_of (map Some rs) ! i) (advantages_of (map Some rs) ! j) =
          Some ((rs ! i - rs ! j) / (std_r rs + CONFIG_epsilon_std))) \<and>
     tstd (advantages_of (map Some rs)) = Some (std_r rs / (std_r rs + CONFIG_epsilon_std)) \<and>
     ((\<exists>i<length rs. \<exists>j<length rs. rs ! i \<noteq> rs ! j) \<longrightarrow>
        0 < std_r rs \<and> 0 < std_r rs / (std_r rs + CONFIG_epsilon_std))"
proof
  assume len: "2 \<le> length rs"
  have ne: "rs \<noteq> []" using len by auto
  let ?d = "std_r rs + CONFIG_epsilon_std"
  let ?adv = "map (\<lambda>r. (r - mean_r rs) / ?d) rs"
  have dpos: "0 < ?d" using std_r_nonneg [OF len] CONFIG_epsilon_std_pos by linarith
  have adv: "advantages_of (map Some rs) = map Some ?adv"
    using advantages_finite [OF len] by simp
  have ane: "?adv \<noteq> []" using ne by simp
  have alen: "2 \<le> length ?adv" using len by simp
  have c1: "tmean (advantages_of (map Some rs)) = Some 0"
    using tmean_mean_r [OF ane] mean_r_centred [OF ne, of ?d] by (simp only: adv)
  have c2: "tstd (map Some rs) = Some (std_r rs)" by (rule tstd_std_r [OF len])
  have c3: "\<forall>i<length rs. \<forall>j<length rs.
        fsub (advantages_of (map Some rs) ! i) (advantages_of (map Some rs) ! j) =
          Some ((rs ! i - rs ! j) / ?d)"
    by (simp add: adv diff_divide_distrib)
  have c4: "tstd (advantages_of (map Some rs)) = Some (std_r rs / ?d)"
    using tstd_std_r [OF alen] std_r_centred [OF ne dpos] by (simp only: adv)
  have c5: "(\<exists>i<length rs. \<exists>j<length rs. rs ! i \<noteq> rs ! j) \<longrightarrow>
        0 < std_r rs \<and> 0 < std_r rs / ?d"
    using std_r_pos [OF len] dpos by auto
  show "tmean (advantages_of (map Some rs)) = Some 0 \<and>
     tstd (map Some rs) = Some (std_r rs) \<and>
     (\<forall>i<length rs. \<forall>j<length rs.
        fsub (advantages_of (map Some rs) ! i) (advantages_of (map Some rs) ! j) =
          Some ((rs ! i - rs ! j) / ?d)) \<and>
     tstd (advantages_of (map Some rs)) = Some (std_r rs / ?d) \<and>
     ((\<exists>i<length rs. \<exists>j<length rs. rs ! i \<noteq> rs ! j) \<longrightarrow>
        0 < std_r rs \<and> 0 < std_r rs / ?d)"
    using c1 c2 c3 c4 c5 by blast
qed

theorem advantages_zero_mean_and_spread_witness:
  "tmean (advantages_of [Some 1, Some 2, Some 3, Some 4]) = Some 0 \<and>
   0 < std_r [1, 2, 3, 4] \<and>
   tstd (advantages_of [Some 1, Some 2, Some 3, Some 4]) =
     Some (std_r [1, 2, 3, 4] / (std_r [1, 2, 3, 4] + CONFIG_epsilon_std))"
proof -
  have len: "2 \<le> length [1, 2, 3, 4 :: real]" by simp
  have "(0::nat) < length [1, 2, 3, 4 :: real] \<and>
        (\<exists>j<length [1, 2, 3, 4 :: real]. [1, 2, 3, 4 :: real] ! 0 \<noteq> [1, 2, 3, 4] ! j)"
    by (intro conjI exI [of _ 1]) simp_all
  then have ex: "\<exists>i<length [1, 2, 3, 4 :: real]. \<exists>j<length [1, 2, 3, 4 :: real].
          [1, 2, 3, 4 :: real] ! i \<noteq> [1, 2, 3, 4] ! j"
    by blast
  show ?thesis
    using advantages_zero_mean_and_spread [of "[1, 2, 3, 4]"] len ex by simp
qed

section \<open>The batch of rewards 1, 2, 3, 4\<close>

lemma std_r_1234: "std_r [1, 2, 3, 4] = sqrt (5 / 3)"
  by (simp add: std_r_def mean_r_def)

lemma sqrt_5_3_bounds: "12909 / 10000 < sqrt (5 / 3)" "sqrt (5 / 3) < 12910 / 10000"
proof -
  have "(12909 / 10000 :: real)\<^sup>2 < 5 / 3" by (simp add: power2_eq_square)
  then show "12909 / 10000 < sqrt (5 / 3)" by (rule real_less_rsqrt)
  have "(5 / 3 :: real) < (12910 / 10000)\<^sup>2" by (simp add: power2_eq_square)
  then show "sqrt (5 / 3) < 12910 / 10000" by (intro real_less_lsqrt) simp_all
qed

lemma divisor_1234_bounds:
  "12909 / 10000 < sqrt (5 / 3) + CONFIG_epsilon_std" "sqrt (5 / 3) + CONFIG_epsilon_std < 12911 / 10000"
  using sqrt_5_3_bounds by (simp_all add: CONFIG_epsilon_std_def)

lemma advantages_1234:
  "advantages_of [Some 1, Some 2, Some 3, Some 4] =
     [Some (- (3 / 2) / (sqrt (5 / 3) + CONFIG_epsilon_std)),
      Some (- (1 / 2) / (sqrt (5 / 3) + CONFIG_epsilon_std)),
      Some ((1 / 2) / (sqrt (5 / 3) + CONFIG_epsilon_std)),
      Some ((3 / 2) / (sqrt (5 / 3) + CONFIG_epsilon_std))]"
proof -
  have len: "2 \<le> length [1, 2, 3, 4 :: real]" by simp
  have m: "mean_r [1, 2, 3, 4] = 5 / 2" by (simp add: mean_r_def)
  show ?thesis
    using advantages_finite [OF len] by (simp add: m std_r_1234)
qed

lemma quotient_bounds:
  assumes "12909 / 10000 < (d::real)" and "d < 12911 / 10000"
  shows "\<bar>(3 / 2) / d - 1162 / 1000\<bar> \<le> 1 / 1000"
    and "\<bar>(1 / 2) / d - 387 / 1000\<bar> \<le> 1 / 1000"
    and "(3 / 2) / d < 124 / 100" and "(1 / 2) / d < 4 / 10"
proof -
  have dpos: "0 < d" using assms(1) by linarith
  have a: "1161 / 1000 \<le> (3 / 2) / d" using assms dpos by (simp add: pos_le_divide_eq)
  have b: "(3 / 2) / d \<le> 1163 / 1000" using assms dpos by (simp add: pos_divide_le_eq)
  have c: "386 / 1000 \<le> (1 / 2) / d" using assms dpos by (simp add: pos_le_divide_eq)
  have e: "(1 / 2) / d \<le> 388 / 1000" using assms dpos by (simp add: pos_divide_le_eq)
  show "\<bar>(3 / 2) / d - 1162 / 1000\<bar> \<le> 1 / 1000" using a b by linarith
  show "\<bar>(1 / 2) / d - 387 / 1000\<bar> \<le> 1 / 1000" using c e by linarith
  show "(3 / 2) / d < 124 / 100" using b by linarith
  show "(1 / 2) / d < 4 / 10" using e by linarith
qed

lemma approx_Some: "approx (Some x) v tol = (\<bar>x - v\<bar> \<le> tol)"
  by (simp add: approx_def)

lemma tstd_1234: "tstd [Some 1, Some 2, Some 3, Some 4] = Some (sqrt (5 / 3))"
  using tstd_std_r [of "[1, 2, 3, 4]"] std_r_1234 by simp

text \<open>
  Claim C2, as stated, fails. \<open>Tensor.std()\<close> divides by \<open>N - 1\<close>, so the
  standard deviation of 1, 2, 3, 4 is \<open>sqrt (5 / 3)\<close>, about 1.291, and not the
  population value 1.118; the first advantage is about -1.162 and not -1.34. Neither
  quoted value is met even within a tolerance of 0.1.
\<close>

theorem advantages_1234_counterexample:
  "\<not> approx (tstd [Some 1, Some 2, Some 3, Some 4]) 1.118 0.1 \<and>
   \<not> approx_list (advantages_of [Some 1, Some 2, Some 3, Some 4])
        [- 1.34, - 0.45, 0.45, 1.34] 0.1"
proof
  have "\<not> \<bar>sqrt (5 / 3) - 1118 / 1000\<bar> \<le> 1 / 10"
    using sqrt_5_3_bounds(1) by linarith
  then show "\<not> approx (tstd [Some 1, Some 2, Some 3, Some 4]) 1.118 0.1"
    unfolding tstd_1234 approx_Some by simp
next
  define d where "d = sqrt (5 / 3) + CONFIG_epsilon_std"
  have q: "(3 / 2) / d < 124 / 100"
    unfolding d_def by (rule quotient_bounds(3) [OF divisor_1234_bounds])
  have n: "- (3 / 2) / d = - ((3 / 2) / d)" by simp
  have "\<not> \<bar>- ((3 / 2) / d) - (- (134 / 100))\<bar> \<le> 1 / 10"
    using q by linarith
  then have "\<not> approx (Some (- (3 / 2) / d)) (- 1.34) 0.1"
    unfolding approx_Some n by simp
  then show "\<not> approx_list (advantages_of [Some 1, Some 2, Some 3, Some 4])
        [- 1.34, - 0.45, 0.45, 1.34] 0.1"
    unfolding advantages_1234 d_def by simp
qed

text \<open>
  Claim C2, amended. For the rewards 1, 2, 3, 4 the mean is 2.5, the standard
  deviation the script uses (Bessel-corrected) is \<open>sqrt (5 / 3)\<close>, 1.291 to three
  decimals, and the advantages are -1.162, -0.387, 0.387, 1.162 to three decimals.
\<close>

theorem advantages_1234_sample_std:
  "tmean [Some 1, Some 2, Some 3, Some 4] = Some 2.5 \<and>
   tstd [Some 1, Some 2, Some 3, Some 4] = Some (sqrt (5 / 3)) \<and>
   approx (tstd [Some 1, Some 2, Some 3, Some 4]) 1.291 0.001 \<and>
   approx_list (advantages_of [Some 1, Some 2, Some 3, Some 4])
     [- 1.162, - 0.387, 0.387, 1.162] 0.001"
proof (intro conjI)
  show "tmean [Some 1, Some 2, Some 3, Some 4] = Some 2.5"
    by (simp add: tmean_def)
  show "tstd [Some 1, Some 2, Some 3, Some 4] = Some (sqrt (5 / 3))"
    by (rule tstd_1234)
  have "\<bar>sqrt (5 / 3) - 1291 / 1000\<bar> \<le> 1 / 1000"
    using sqrt_5_3_bounds by linarith
  then show "approx (tstd [Some 1, Some 2, Some 3, Some 4]) 1.291 0.001"
    unfolding tstd_1234 approx_Some by simp
  define d where "d = sqrt (5 / 3) + CONFIG_epsilon_std"
  have q3: "\<bar>(3 / 2) / d - 1162 / 1000\<bar> \<le> 1 / 1000"
    unfolding d_def by (rule quotient_bounds(1) [OF divisor_1234_bounds])
  have q1: "\<bar>(1 / 2) / d - 387 / 1000\<bar> \<le> 1 / 1000"
    unfolding d_def by (rule quotient_bounds(2) [OF divisor_1234_bounds])
  have n3: "- (3 / 2) / d = - ((3 / 2) / d)" and n1: "- (1 / 2) / d = - ((1 / 2) / d)"
    by simp_all
  have "\<bar>- ((3 / 2) / d) - (- (1162 / 1000))\<bar> \<le> 1 / 1000" using q3 by linarith
  then have a0: "approx (Some (- (3 / 2) / d)) (- 1.162) 0.001"
    unfolding approx_Some n3 by simp
  have "\<bar>- ((1 / 2) / d) - (- (387 / 1000))\<bar> \<le> 1 / 1000" using q1 by linarith
  then have a1: "approx (Some (- (1 / 2) / d)) (- 0.387) 0.001"
    unfolding approx_Some n1 by simp
  have a2: "approx (Some ((1 / 2) / d)) 0.387 0.001"
    unfolding approx_Some using q1 by simp
  have a3: "approx (Some ((3 / 2) / d)) 1.162 0.001"
    unfolding approx_Some using q3 by simp
  show "approx_list (advantages_of [Some 1, Some 2, Some 3, Some 4])
     [- 1.162, - 0.387, 0.387, 1.162] 0.001"
    unfolding advantages_1234 approx_list.simps using a0 a1 a2 a3
    unfolding d_def by blast
qed

section \<open>Negative log-likelihoods are not negative\<close>

lemma collect_Inr:
  "collect rs = Inr xs \<Longrightarrow> rs = map Inr xs"
  by (induction rs arbitrary: xs) (auto split: sum.splits)

lemma collect_map_Inr: "collect (map Inr xs) = Inr xs"
  by (induction xs) simp_all

lemma member_le_sum_list_real:
  "x \<in> set xs \<Longrightarrow> \<forall>y\<in>set xs. 0 \<le> y \<Longrightarrow> x \<le> (sum_list xs :: real)"
proof (induction xs)
  case Nil
  then show ?case by simp
next
  case (Cons a xs)
  have nn: "0 \<le> sum_list xs" using Cons.prems(2) by (simp add: sum_list_nonneg)
  show ?case
  proof (cases rule: case_split [of "x = a"])
    case True
    then show ?thesis using nn by simp
  next
    case False
    then have "x \<le> sum_list xs" using Cons by simp
    moreover have "0 \<le> a" using Cons.prems(2) by simp
    ultimately show ?thesis by simp
  qed
qed

lemma nth_le_log_sum_exp:
  assumes "t < length z"
  shows "z ! t \<le> log_sum_exp z"
proof -
  have "exp (z ! t) \<in> set (map exp z)" using assms by simp
  then have "exp (z ! t) \<le> sum_list (map exp z)"
    by (rule member_le_sum_list_real) auto
  then have "ln (exp (z ! t)) \<le> ln (sum_list (map exp z))"
    by (intro ln_mono) (simp_all add: less_le_trans [OF exp_gt_zero])
  then show ?thesis by (simp add: log_sum_exp_def)
qed

lemma cross_entropy_token_nonneg:
  "cross_entropy_token ig z t = Inr l \<Longrightarrow> 0 \<le> l"
  using nth_le_log_sum_exp [of t z]
  by (auto simp: cross_entropy_token_def split: if_splits)

lemma row_loss_nonneg:
  assumes "row_loss ig lr tr = Inr ls"
  shows "\<forall>l\<in>set ls. 0 \<le> l"
proof
  fix l assume "l \<in> set ls"
  then have "Inr l \<in> set (map2 (cross_entropy_token ig) lr tr)"
    using collect_Inr [OF assms [unfolded row_loss_def]] by simp
  then obtain z t where "cross_entropy_token ig z t = Inr l"
    by (auto simp: in_set_zip)
  then show "0 \<le> l" by (rule cross_entropy_token_nonneg)
qed

lemma row_nll_nonneg:
  "\<forall>l\<in>set ls. 0 \<le> l \<Longrightarrow> 0 \<le> row_nll pad ls tr"
proof -
  assume h: "\<forall>l\<in>set ls. 0 \<le> l"
  have "\<And>x. x \<in> set (map2 (*) ls (map (\<lambda>t. if t \<noteq> pad then 1 else 0) tr)) \<Longrightarrow> (0::real) \<le> x"
    using h by (auto simp: in_set_zip)
  then have "0 \<le> sum_list (map2 (*) ls (map (\<lambda>t. if t \<noteq> pad then 1 else 0) tr))"
    by (rule sum_list_nonneg)
  then show ?thesis by (simp only: row_nll_def)
qed

lemma loss_fn_rows:
  assumes "loss_fn ig logits target = Inr lpt"
  shows "length lpt = length target"
    and "\<forall>i<length target. row_loss ig (logits ! i) (target ! i) = Inr (lpt ! i)"
proof -
  have len: "length logits = length target"
    using assms by (auto simp: loss_fn_def split: if_splits)
  have c: "collect (map2 (row_loss ig) logits target) = Inr lpt"
    using assms by (auto simp: loss_fn_def split: if_splits)
  have m: "map2 (row_loss ig) logits target = map Inr lpt" by (rule collect_Inr [OF c])
  show l: "length lpt = length target"
    using arg_cong [OF m, of length] len by simp
  show "\<forall>i<length target. row_loss ig (logits ! i) (target ! i) = Inr (lpt ! i)"
  proof (intro allI impI)
    fix i assume i: "i < length target"
    show "row_loss ig (logits ! i) (target ! i) = Inr (lpt ! i)"
      using arg_cong [OF m, of "\<lambda>l. l ! i"] i len l by simp
  qed
qed

lemma calculate_nll_Inr:
  assumes "calculate_nll model tok sequences = Inr nll"
  obtains batch logits lpt where
    "pad_sequence (map (tokenizeMSA tok) sequences) (pad_id tok) = Inr batch"
    "model (map (map (\<lambda>t. mask_id tok)) batch) (map length sequences) = Inr logits"
    "loss_fn (pad_id tok) logits batch = Inr lpt"
    "nll = map2 (row_nll (pad_id tok)) lpt batch"
    "hd (map (tokenizeMSA tok) sequences) \<noteq> []"
  using assms by (auto simp: calculate_nll_def Let_def split: sum.splits if_splits)

lemma pad_sequence_Inr:
  assumes "pad_sequence rows pv = Inr batch"
  shows "rows \<noteq> []" and "length batch = length rows"
    and "batch = map (\<lambda>row. row @ replicate (max_len rows - length row) pv) rows"
  using assms by (auto simp: pad_sequence_def split: if_splits)

lemma nll_batch_facts:
  assumes r: "calculate_nll model tok sequences = Inr nll"
  shows "sequences \<noteq> [] \<and> length nll = length sequences \<and> (\<forall>x\<in>set nll. 0 \<le> x)"
proof -
  from r obtain batch logits lpt where
    p: "pad_sequence (map (tokenizeMSA tok) sequences) (pad_id tok) = Inr batch" and
    l: "loss_fn (pad_id tok) logits batch = Inr lpt" and
    n: "nll = map2 (row_nll (pad_id tok)) lpt batch"
    by (rule calculate_nll_Inr)
  have ne: "sequences \<noteq> []" using pad_sequence_Inr(1) [OF p] by simp
  have lb: "length batch = length sequences" using pad_sequence_Inr(2) [OF p] by simp
  have ll: "length lpt = length batch" by (rule loss_fn_rows(1) [OF l])
  have len: "length nll = length sequences" using n ll lb by simp
  have nonneg: "\<forall>x\<in>set nll. 0 \<le> x"
  proof
    fix x assume "x \<in> set nll"
    then obtain i where i: "i < length batch" and x: "x = row_nll (pad_id tok) (lpt ! i) (batch ! i)"
      using n ll by (auto simp: in_set_conv_nth)
    have "row_loss (pad_id tok) (logits ! i) (batch ! i) = Inr (lpt ! i)"
      using loss_fn_rows(2) [OF l] i by simp
    then have "\<forall>l\<in>set (lpt ! i). 0 \<le> l" by (rule row_loss_nonneg)
    then show "0 \<le> x" unfolding x by (rule row_nll_nonneg)
  qed
  show ?thesis using ne len nonneg by simp
qed

lemma calculate_nll_flat_example:
  "calculate_nll flat_model example_tokenizer [''AB'', ''A''] = Inr [ln 2 + ln 2, ln 2]"
  by (simp add: calculate_nll_def pad_sequence_def max_len_def loss_fn_def row_loss_def
      cross_entropy_token_def log_sum_exp_def row_nll_def flat_model_def
      example_tokenizer_def)

text \<open>
  Claim C10. Whenever \<open>calculate_nll\<close> returns (it raises on an empty batch, on a
  model error, on a shape mismatch and on a target that is not a class), it returns
  one value per sequence of a non-empty batch, every value is at least 0, and so every
  log-likelihood \<open>- nll\<close> is at most 0.
\<close>

theorem calculate_nll_nonneg:
  "calculate_nll model tok sequences = Inr nll \<longrightarrow>
     sequences \<noteq> [] \<and> length nll = length sequences \<and>
     (\<forall>x\<in>set nll. 0 \<le> x) \<and> (\<forall>x\<in>set nll. - x \<le> 0)"
  using nll_batch_facts [of model tok sequences nll] by auto

theorem calculate_nll_nonneg_witness:
  "calculate_nll flat_model example_tokenizer [''AB'', ''A''] = Inr [ln 2 + ln 2, ln 2] \<and>
   (0::real) \<le> ln 2 + ln 2 \<and> (0::real) \<le> ln 2"
  using calculate_nll_nonneg [of flat_model example_tokenizer "[''AB'', ''A'']"
      "[ln 2 + ln 2, ln 2]"] calculate_nll_flat_example
  by simp

section \<open>A model against itself\<close>

lemma log_ratios_of_self: "log_ratios_of xs xs = Inr (map (\<lambda>x. Some 0) xs)"
proof -
  have "map2 fsub (map (\<lambda>x. fneg (Some x)) xs) (map (\<lambda>x. fneg (Some x)) xs) =
        map (\<lambda>x. Some 0) xs"
    by (induction xs) simp_all
  then show ?thesis by (simp only: log_ratios_of_def tsub_def Let_def refl if_True)
qed

lemma tmean_zeros: "xs \<noteq> [] \<Longrightarrow> tmean (map (\<lambda>x. Some 0) xs) = Some 0"
  using tmean_finite [of "map (\<lambda>x. 0) xs"] by (simp add: comp_def)

text \<open>
  Claim C6. When the policy and the reference negative log-likelihoods are both the
  result of \<open>calculate_nll\<close> on the same model, tokenizer and batch, every
  log-ratio is exactly 0 and the KL term \<open>kl_beta * mean log_ratios\<close> is 0. A model
  is a function here: two evaluations of it on the same input agree.
\<close>

theorem log_ratios_same_model:
  "calculate_nll model tok sequences = Inr policy_nll \<and>
   calculate_nll model tok sequences = Inr ref_nll \<longrightarrow>
     log_ratios_of policy_nll ref_nll = Inr (map (\<lambda>s. Some 0) sequences) \<and>
     kl_penalty (map (\<lambda>s. Some 0) sequences) kl_beta = Some 0"
proof
  assume h: "calculate_nll model tok sequences = Inr policy_nll \<and>
   calculate_nll model tok sequences = Inr ref_nll"
  then have "Inr ref_nll = (Inr policy_nll :: exn + real list)" by (elim conjE) (rule trans [OF sym])
  then have eq: "ref_nll = policy_nll" by (rule Inr_inject)
  have props: "sequences \<noteq> [] \<and> length policy_nll = length sequences"
    using nll_batch_facts h by blast
  have "map (\<lambda>x. Some (0::real)) policy_nll = map (\<lambda>s. Some 0) sequences"
    using props by (simp add: map_equality_iff)
  then have lr: "log_ratios_of policy_nll ref_nll = Inr (map (\<lambda>s. Some 0) sequences)"
    by (simp only: eq log_ratios_of_self)
  have kl: "kl_penalty (map (\<lambda>s. Some 0) sequences) kl_beta = Some 0"
    using props tmean_zeros [of sequences] by (simp add: kl_penalty_def)
  show "log_ratios_of policy_nll ref_nll = Inr (map (\<lambda>s. Some 0) sequences) \<and>
     kl_penalty (map (\<lambda>s. Some 0) sequences) kl_beta = Some 0"
    using lr kl by simp
qed

theorem log_ratios_same_model_witness:
  "log_ratios_of [ln 2 + ln 2, ln 2] [ln 2 + ln 2, ln 2] = Inr [Some 0, Some 0] \<and>
   kl_penalty [Some 0, Some 0] 0.1 = Some 0"
  using log_ratios_same_model [of flat_model example_tokenizer "[''AB'', ''A'']"
      "[ln 2 + ln 2, ln 2]" "[ln 2 + ln 2, ln 2]" "0.1"] calculate_nll_flat_example
  by simp

section \<open>Padding and the other sequences of a batch\<close>

lemma length_le_max_len: "row \<in> set rows \<Longrightarrow> length row \<le> max_len rows"
  by (induction rows) (auto simp: max_len_def)

lemma max_len_single: "max_len [row] = length row"
  by (simp add: max_len_def)

lemma row_loss_Nil: "row_loss pad lr [] = Inr []"
  by (simp add: row_loss_def)

lemma row_loss_Cons:
  "row_loss pad (z # lr) (t # tr) =
     (case cross_entropy_token pad z t of
        Inl e \<Rightarrow> Inl e
      | Inr l \<Rightarrow> (case row_loss pad lr tr of Inl e \<Rightarrow> Inl e | Inr ls \<Rightarrow> Inr (l # ls)))"
  by (simp add: row_loss_def split: sum.splits)

lemma row_nll_pads: "row_nll pad ls (replicate k pad) = 0"
proof (induction k arbitrary: ls)
  case 0
  then show ?case by (simp add: row_nll_def)
next
  case (Suc k)
  show ?case
  proof (cases ls)
    case Nil
    then show ?thesis by (simp add: row_nll_def)
  next
    case (Cons l ls')
    then show ?thesis using Suc [of ls'] by (simp add: row_nll_def)
  qed
qed

lemma row_nll_Cons:
  "row_nll pad (l # ls) (t # tr) = l * (if t \<noteq> pad then 1 else 0) + row_nll pad ls tr"
  by (simp add: row_nll_def)

lemma row_nll_Nil: "row_nll pad ls [] = 0"
  by (simp add: row_nll_def)

lemma row_unpadded:
  assumes "length lr = length tr + k"
    and "row_loss pad lr (tr @ replicate k pad) = Inr ls"
  shows "row_loss pad (take (length tr) lr) tr = Inr (take (length tr) ls) \<and>
         row_nll pad ls (tr @ replicate k pad) = row_nll pad (take (length tr) ls) tr"
  using assms
proof (induction tr arbitrary: lr ls)
  case Nil
  then show ?case by (simp add: row_loss_Nil row_nll_pads row_nll_Nil)
next
  case (Cons t tr)
  from Cons.prems(1) obtain z lr' where lr: "lr = z # lr'" and len: "length lr' = length tr + k"
    by (cases lr) auto
  from Cons.prems(2) obtain l ls' where
    ce: "cross_entropy_token pad z t = Inr l" and
    rest: "row_loss pad lr' (tr @ replicate k pad) = Inr ls'" and
    ls: "ls = l # ls'"
    by (auto simp: lr row_loss_Cons split: sum.splits)
  have ih: "row_loss pad (take (length tr) lr') tr = Inr (take (length tr) ls') \<and>
         row_nll pad ls' (tr @ replicate k pad) = row_nll pad (take (length tr) ls') tr"
    by (rule Cons.IH [OF len rest])
  show ?case using ih ce by (simp add: lr ls row_loss_Cons row_nll_Cons)
qed

lemma model_input_masked:
  "map (map (\<lambda>t. mask_id tok))
     (map (\<lambda>row. row @ replicate (max_len rows - length row) (pad_id tok)) rows) =
   map (\<lambda>row. replicate (max_len rows) (mask_id tok)) rows"
proof -
  have "\<And>row. row \<in> set rows \<Longrightarrow>
        (map (\<lambda>t. mask_id tok) \<circ> (\<lambda>row. row @ replicate (max_len rows - length row) (pad_id tok))) row =
        replicate (max_len rows) (mask_id tok)"
  proof -
    fix row assume "row \<in> set rows"
    then have "length row \<le> max_len rows" by (rule length_le_max_len)
    then show "(map (\<lambda>t. mask_id tok) \<circ> (\<lambda>row. row @ replicate (max_len rows - length row) (pad_id tok))) row =
        replicate (max_len rows) (mask_id tok)"
      by (simp add: map_replicate_const replicate_add [symmetric])
  qed
  then show ?thesis unfolding map_map by (rule map_cong [OF refl])
qed

lemma loss_fn_shape:
  assumes "loss_fn ig logits target = Inr lpt" and "i < length target"
  shows "length (logits ! i) = length (target ! i)"
proof -
  have "length logits = length target" and "list_all2 (\<lambda>lr tr. length lr = length tr) logits target"
    using assms(1) by (auto simp: loss_fn_def split: if_splits)
  then show ?thesis using assms(2) by (simp add: list_all2_conv_all_nth)
qed

lemma calculate_nll_single:
  assumes "model [map (\<lambda>t. mask_id tok) (tokenizeMSA tok s)] [length s] = Inr [lr]"
    and "length lr = length (tokenizeMSA tok s)"
    and "row_loss (pad_id tok) lr (tokenizeMSA tok s) = Inr ls"
    and "tokenizeMSA tok s \<noteq> []"
  shows "calculate_nll model tok [s] = Inr [row_nll (pad_id tok) ls (tokenizeMSA tok s)]"
  using assms
  by (simp add: calculate_nll_def pad_sequence_def max_len_single loss_fn_def)

text \<open>
  Claim C7, as stated for every model and every sequence, fails in two ways.
  \<open>width_model\<close> gives the sequence \<open>A\<close> the negative log-likelihood
  \<open>ln 2\<close> alone and \<open>ln (1 + exp 1)\<close> next to the longer sequence \<open>AA\<close>.
  And with any model, the empty sequence has the negative log-likelihood 0 after the
  sequence \<open>A\<close>, while alone it makes \<open>calculate_nll\<close> raise.
\<close>

theorem nll_padding_counterexample:
  "calculate_nll width_model example_tokenizer [''A''] = Inr [ln 2] \<and>
   calculate_nll width_model example_tokenizer [''A'', ''AA''] =
     Inr [ln (1 + exp 1), ln (1 + exp 1) + ln (1 + exp 1)] \<and>
   ln (1 + exp 1) \<noteq> (ln 2 :: real) \<and>
   calculate_nll flat_model example_tokenizer [''A'', []] = Inr [ln 2, 0] \<and>
   calculate_nll flat_model example_tokenizer [[]] = Inl RuntimeError"
proof (intro conjI)
  show "calculate_nll flat_model example_tokenizer [''A'', []] = Inr [ln 2, 0]"
    by (simp add: calculate_nll_def pad_sequence_def max_len_def loss_fn_def row_loss_def
        cross_entropy_token_def log_sum_exp_def row_nll_def flat_model_def
        example_tokenizer_def)
  show "calculate_nll flat_model example_tokenizer [[]] = Inl RuntimeError"
    by (simp add: calculate_nll_def pad_sequence_def max_len_def flat_model_def
        example_tokenizer_def)
  show "calculate_nll width_model example_tokenizer [''A''] = Inr [ln 2]"
    by (simp add: calculate_nll_def pad_sequence_def max_len_def loss_fn_def row_loss_def
        cross_entropy_token_def log_sum_exp_def row_nll_def width_model_def
        example_tokenizer_def)
  show "calculate_nll width_model example_tokenizer [''A'', ''AA''] =
     Inr [ln (1 + exp 1), ln (1 + exp 1) + ln (1 + exp 1)]"
    by (simp add: calculate_nll_def pad_sequence_def max_len_def loss_fn_def row_loss_def
        cross_entropy_token_def log_sum_exp_def row_nll_def width_model_def
        example_tokenizer_def)
  have "(1::real) + exp 1 \<noteq> 2" by simp
  moreover have "(0::real) < 1 + exp 1" by (simp add: add_pos_pos)
  ultimately show "ln (1 + exp 1) \<noteq> (ln 2 :: real)" by (simp add: ln_inj_iff)
qed

text \<open>
  Claim C7, amended. For a sequence that has at least one token: when the model gives
  it, evaluated alone, the logits it gives that sequence's row inside the batch at the
  positions of its tokens (\<open>padding_invariant_at\<close>), the negative log-likelihood
  of the sequence in the batch is the one \<open>calculate_nll\<close> returns for the
  sequence alone, and the evaluation alone does not raise. A sequence without tokens
  is left out: alone it is the first row of its batch, and \<open>calculate_nll\<close>
  raises.
\<close>

theorem nll_padding_invariant:
  "i < length sequences \<and> tokenizeMSA tok (sequences ! i) \<noteq> [] \<and>
   padding_invariant_at model tok sequences i \<and>
   calculate_nll model tok sequences = Inr nll \<longrightarrow>
     calculate_nll model tok [sequences ! i] = Inr [nll ! i]"
proof
  assume h: "i < length sequences \<and> tokenizeMSA tok (sequences ! i) \<noteq> [] \<and>
   padding_invariant_at model tok sequences i \<and>
   calculate_nll model tok sequences = Inr nll"
  then have i: "i < length sequences" and inv: "padding_invariant_at model tok sequences i"
    and tne: "tokenizeMSA tok (sequences ! i) \<noteq> []"
    and r: "calculate_nll model tok sequences = Inr nll" by simp_all
  define rows where "rows = map (tokenizeMSA tok) sequences"
  define row where "row = tokenizeMSA tok (sequences ! i)"
  define k where "k = max_len rows - length row"
  from r obtain batch logits lpt where
    p: "pad_sequence rows (pad_id tok) = Inr batch" and
    m: "model (map (map (\<lambda>t. mask_id tok)) batch) (map length sequences) = Inr logits" and
    l: "loss_fn (pad_id tok) logits batch = Inr lpt" and
    n: "nll = map2 (row_nll (pad_id tok)) lpt batch"
    unfolding rows_def by (rule calculate_nll_Inr)
  have b: "batch = map (\<lambda>row. row @ replicate (max_len rows - length row) (pad_id tok)) rows"
    by (rule pad_sequence_Inr(3) [OF p])
  have lb: "length batch = length sequences" using b by (simp add: rows_def)
  have ib: "i < length batch" using i lb by simp
  have bi: "batch ! i = row @ replicate k (pad_id tok)"
    using i by (simp add: b rows_def row_def k_def)
  have mi: "map (map (\<lambda>t. mask_id tok)) batch = model_input tok sequences"
    unfolding b model_input_masked by (simp add: model_input_def rows_def)
  have single_in: "model_input tok [sequences ! i] = [map (\<lambda>t. mask_id tok) row]"
    by (simp add: model_input_def max_len_single row_def map_replicate_const)
  have alone: "model [map (\<lambda>t. mask_id tok) row] [length (sequences ! i)] =
        Inr [take (length row) (logits ! i)]"
    using inv m by (simp add: padding_invariant_at_def mi [symmetric] single_in row_def)
  have shape: "length (logits ! i) = length row + k"
    using loss_fn_shape [OF l ib] by (simp add: bi)
  have rl: "row_loss (pad_id tok) (logits ! i) (row @ replicate k (pad_id tok)) = Inr (lpt ! i)"
    using loss_fn_rows(2) [OF l] ib by (simp add: bi [symmetric])
  have u: "row_loss (pad_id tok) (take (length row) (logits ! i)) row =
             Inr (take (length row) (lpt ! i)) \<and>
           row_nll (pad_id tok) (lpt ! i) (row @ replicate k (pad_id tok)) =
             row_nll (pad_id tok) (take (length row) (lpt ! i)) row"
    by (rule row_unpadded [OF shape rl])
  have ll: "length lpt = length batch" by (rule loss_fn_rows(1) [OF l])
  have ni: "nll ! i = row_nll (pad_id tok) (lpt ! i) (batch ! i)"
    using ib ll by (simp add: n)
  have "calculate_nll model tok [sequences ! i] =
        Inr [row_nll (pad_id tok) (take (length row) (lpt ! i)) (tokenizeMSA tok (sequences ! i))]"
  proof (rule calculate_nll_single)
    show "model [map (\<lambda>t. mask_id tok) (tokenizeMSA tok (sequences ! i))] [length (sequences ! i)] =
          Inr [take (length row) (logits ! i)]"
      using alone by (simp add: row_def)
    show "length (take (length row) (logits ! i)) = length (tokenizeMSA tok (sequences ! i))"
      using shape by (simp add: row_def)
    show "row_loss (pad_id tok) (take (length row) (logits ! i)) (tokenizeMSA tok (sequences ! i)) =
          Inr (take (length row) (lpt ! i))"
      using u by (simp add: row_def)
    show "tokenizeMSA tok (sequences ! i) \<noteq> []" by (rule tne)
  qed
  then show "calculate_nll model tok [sequences ! i] = Inr [nll ! i]"
    using u by (simp add: ni bi row_def)
qed

theorem nll_padding_invariant_witness:
  "tokenizeMSA example_tokenizer ([''AB'', ''A''] ! 1) \<noteq> [] \<and>
   padding_invariant_at flat_model example_tokenizer [''AB'', ''A''] 1 \<and>
   calculate_nll flat_model example_tokenizer [''AB'', ''A''] = Inr [ln 2 + ln 2, ln 2] \<and>
   calculate_nll flat_model example_tokenizer [''A''] = Inr [ln 2]"
proof -
  have inv: "padding_invariant_at flat_model example_tokenizer [''AB'', ''A''] 1"
    by (simp add: padding_invariant_at_def model_input_def max_len_def flat_model_def
        example_tokenizer_def)
  have tne: "tokenizeMSA example_tokenizer ([''AB'', ''A''] ! 1) \<noteq> []"
    by (simp add: example_tokenizer_def)
  show ?thesis
    using nll_padding_invariant [of 1 "[''AB'', ''A'']" example_tokenizer flat_model
        "[ln 2 + ln 2, ln 2]"] inv tne calculate_nll_flat_example
    by simp
qed

section \<open>One reward per sequence\<close>

lemma try_sequence_Inr:
  assumes "try_sequence sys af2 target out i s w = (Inr x, w')"
  shows "case fst (score_sequence sys af2 target out i s w) of
           Inl e \<Rightarrow> x = Some (- 100)
         | Inr y \<Rightarrow> x = y"
  using assms
  by (auto simp: try_sequence_def catch_io_def bind_io_def return_io_def
      split: prod.splits sum.splits)

lemma try_sequence_returns:
  assumes "\<forall>i e v. fst (print_error sys i e v) = Inr ()"
  shows "\<exists>x w'. try_sequence sys af2 target out i s w = (Inr x, w')"
proof -
  obtain r w1 where sc: "score_sequence sys af2 target out i s w = (r, w1)" by fastforce
  show ?thesis
  proof (cases r)
    case (Inl e)
    obtain q w2 where pr: "print_error sys i e w1 = (q, w2)" by fastforce
    have "q = Inr ()" using assms pr by (metis fst_conv)
    then show ?thesis using sc Inl pr
      by (simp add: try_sequence_def catch_io_def bind_io_def return_io_def)
  next
    case (Inr x)
    then show ?thesis using sc by (simp add: try_sequence_def catch_io_def)
  qed
qed

lemma reward_loop_Cons_Inr:
  assumes "reward_loop sys af2 target out i (s # rest) w = (Inr rs, w')"
  obtains x w1 rs' where
    "try_sequence sys af2 target out i s w = (Inr x, w1)"
    "reward_loop sys af2 target out (Suc i) rest w1 = (Inr rs', w')"
    "rs = x # rs'"
  using assms
  by (auto simp: bind_io_def return_io_def split: prod.splits sum.splits)

lemma reward_loop_Cons_state:
  assumes "try_sequence sys af2 target out i s w = (Inr x, w1)"
  shows "snd (reward_loop sys af2 target out i (s # ss) w) =
         snd (reward_loop sys af2 target out (Suc i) ss w1)"
  using assms
  by (simp add: bind_io_def return_io_def split: prod.splits sum.splits)

lemma reward_loop_length:
  "reward_loop sys af2 target out i sequences w = (Inr rs, w') \<Longrightarrow>
   length rs = length sequences"
proof (induction sequences arbitrary: i w rs)
  case Nil
  then show ?case by (simp add: return_io_def)
next
  case (Cons s rest)
  from Cons.prems obtain x w1 rs' where
    r: "reward_loop sys af2 target out (Suc i) rest w1 = (Inr rs', w')" and e: "rs = x # rs'"
    by (rule reward_loop_Cons_Inr)
  show ?case using Cons.IH [OF r] e by simp
qed

lemma reward_loop_nth:
  "reward_loop sys af2 target out i sequences w = (Inr rs, w') \<Longrightarrow> k < length sequences \<Longrightarrow>
   (case fst (score_sequence sys af2 target out (i + k) (sequences ! k)
          (snd (reward_loop sys af2 target out i (take k sequences) w))) of
      Inl e \<Rightarrow> rs ! k = Some (- 100)
    | Inr x \<Rightarrow> rs ! k = x)"
proof (induction sequences arbitrary: i w k rs)
  case Nil
  then show ?case by simp
next
  case (Cons s rest)
  from Cons.prems(1) obtain x w1 rs' where
    t: "try_sequence sys af2 target out i s w = (Inr x, w1)" and
    r: "reward_loop sys af2 target out (Suc i) rest w1 = (Inr rs', w')" and
    e: "rs = x # rs'"
    by (rule reward_loop_Cons_Inr)
  show ?case
  proof (cases k)
    case 0
    then show ?thesis using try_sequence_Inr [OF t] e
      by (auto simp: return_io_def split: sum.splits)
  next
    case (Suc k')
    have k': "k' < length rest" using Cons.prems(2) Suc by simp
    have st: "snd (reward_loop sys af2 target out i (s # take k' rest) w) =
              snd (reward_loop sys af2 target out (Suc i) (take k' rest) w1)"
      by (rule reward_loop_Cons_state [OF t])
    show ?thesis using Cons.IH [OF r k'] unfolding Suc e
      by (auto simp: st simp del: reward_loop.simps split: sum.splits)
  qed
qed

lemma reward_loop_returns:
  assumes "\<forall>i e v. fst (print_error sys i e v) = Inr ()"
  shows "\<exists>rs w'. reward_loop sys af2 target out i sequences w = (Inr rs, w')"
proof (induction sequences arbitrary: i w)
  case Nil
  show ?case by (simp add: return_io_def)
next
  case (Cons s rest)
  obtain x w1 where t: "try_sequence sys af2 target out i s w = (Inr x, w1)"
    using try_sequence_returns [OF assms] by blast
  obtain rs w' where r: "reward_loop sys af2 target out (Suc i) rest w1 = (Inr rs, w')"
    using Cons.IH by blast
  show ?case using t r by (simp add: bind_io_def return_io_def)
qed

lemma score_sequence_success:
  assumes "score_sequence sys af2 target out i binder_seq w = (Inr x, w')"
  shows "\<exists>rank_data result model_name iptm a wa wb.
           json_load sys (path_join (path_join out (''job_'' @ show_nat i)) ''ranking_debug.json'') wa
             = (Inr rank_data, wb) \<and>
           top_ranked rank_data = Inr (model_name, iptm) \<and>
           pickle_load sys (path_join (path_join out (''job_'' @ show_nat i))
                              (''result_'' @ model_name @ ''.pkl'')) wb = (Inr result, w') \<and>
           plddt result = Some a \<and>
           x = fadd (Some iptm) (fmul (Some 0.1) (tmean (map Some a)))"
  using assms
  apply (auto simp: score_sequence_def bind_io_def return_io_def Let_def avg_plddt_of_def
      split: prod.splits sum.splits option.splits)
  apply blast
  done

lemma get_reward_unfold:
  "get_reward sys sequences target af2 out w =
     (case makedirs sys out w of
        (Inl e, w1) \<Rightarrow> (Inl e, w1)
      | (Inr u, w1) \<Rightarrow> reward_loop sys af2 target out 0 sequences w1)"
  by (simp add: get_reward_def bind_io_def split: prod.splits sum.splits)

lemma show_nat_digit: "n < 10 \<Longrightarrow> show_nat n = [digit_char n]"
  by (simp add: show_nat.simps)

lemmas bridge_eval =
  get_reward_unfold score_sequence_def try_sequence_def catch_io_def bind_io_def return_io_def
  top_ranked_def avg_plddt_of_def path_join_def show_nat_digit digit_char_def tmean_def

lemma example_rewards:
  "get_reward example_sys [''AAA'', ''CCC'', ''GGG''] ''TTT'' example_predictor ''out'' () =
     (Inr [Some 9, Some (- 100), Some 9], ())"
  by (simp add: bridge_eval example_sys_def example_predictor_def)

lemma example_rewards_all_succeed:
  "get_reward example_sys [''AAA'', ''CCC'', ''GGG''] ''TTT''
     (\<lambda>fasta_path job_dir. return_io (Inr ())) ''out'' () =
     (Inr [Some 9, Some 9, Some 9], ())"
  by (simp add: bridge_eval example_sys_def)

text \<open>
  Claim C3, as stated for every batch, fails in three ways. The output root is created
  before the loop and outside the handler, so when that raises, \<open>get_reward\<close>
  raises and returns no reward at all. The handler prints before it appends the
  sentinel, so when the body for a sequence raises and the print raises too, the batch
  is aborted. And the state of the collaborators is shared by the sequences of a
  batch: with a predictor that fails on every job after its first crash, the crash on
  job 0 gives sequence 1 the sentinel, where it has the reward 9 when job 0 succeeds.
\<close>

theorem get_reward_counterexample:
  "get_reward readonly_sys [''AAA'', ''CCC'', ''GGG''] ''TTT'' example_predictor ''out'' () =
     (Inl OSError, ()) \<and>
   get_reward closed_output_sys [''AAA'', ''CCC'', ''GGG''] ''TTT'' example_predictor ''out'' () =
     (Inl OSError, ()) \<and>
   get_reward example_sys [''AAA'', ''CCC''] ''TTT'' crashing_predictor ''out'' False =
     (Inr [Some (- 100), Some (- 100)], True) \<and>
   get_reward example_sys [''AAA'', ''CCC''] ''TTT'' steady_predictor ''out'' False =
     (Inr [Some 9, Some 9], False)"
proof (intro conjI)
  show "get_reward readonly_sys [''AAA'', ''CCC'', ''GGG''] ''TTT'' example_predictor ''out'' () =
     (Inl OSError, ())"
    by (simp add: get_reward_unfold readonly_sys_def example_sys_def return_io_def)
  show "get_reward closed_output_sys [''AAA'', ''CCC'', ''GGG''] ''TTT'' example_predictor ''out'' () =
     (Inl OSError, ())"
    by (simp add: bridge_eval closed_output_sys_def example_sys_def example_predictor_def)
  show "get_reward example_sys [''AAA'', ''CCC''] ''TTT'' crashing_predictor ''out'' False =
     (Inr [Some (- 100), Some (- 100)], True)"
    by (simp add: bridge_eval example_sys_def crashing_predictor_def)
  show "get_reward example_sys [''AAA'', ''CCC''] ''TTT'' steady_predictor ''out'' False =
     (Inr [Some 9, Some 9], False)"
    by (simp add: bridge_eval example_sys_def steady_predictor_def)
qed

text \<open>
  Claim C3, amended. When creating the output root raises, \<open>get_reward\<close> raises
  that exception. When it succeeds and the print of the handler never raises,
  \<open>get_reward\<close> returns. Whenever it returns, it returns one reward per sequence,
  in order, and the reward at index \<open>i\<close> is -100 when the body for sequence
  \<open>i\<close> raised, and otherwise the confidence of the top-ranked model plus 0.1 times
  the mean of its per-residue confidences, both read from the files of job \<open>i\<close>.
  The rewards at the indices other than \<open>i\<close> are what they are in another run, with
  other collaborators, in which sequence \<open>i\<close> may fare differently, provided the
  body for each of those other sequences has the same outcome under both sets of
  collaborators whatever the state it is started in.
\<close>

theorem get_reward_per_sequence:
  "(makedirs sys output_root w = (Inl err, w1) \<longrightarrow>
      get_reward sys sequences target_sequence af2 output_root w = (Inl err, w1)) \<and>
   (makedirs sys output_root w = (Inr (), w1) \<and>
    (\<forall>i e v. fst (print_error sys i e v) = Inr ()) \<longrightarrow>
      (\<exists>rs w2. get_reward sys sequences target_sequence af2 output_root w = (Inr rs, w2))) \<and>
   (makedirs sys output_root w = (Inr (), w1) \<and>
    get_reward sys sequences target_sequence af2 output_root w = (Inr rewards, w') \<longrightarrow>
      length rewards = length sequences \<and>
      (\<forall>i<length sequences.
         (\<forall>e. outcome_at sys af2 target_sequence output_root sequences w1 i = Inl e \<longrightarrow>
              rewards ! i = Some (- 100)) \<and>
         (\<forall>x. outcome_at sys af2 target_sequence output_root sequences w1 i = Inr x \<longrightarrow>
              rewards ! i = x \<and>
              (\<exists>rank_data result model_name iptm a wa wb wc.
                 json_load sys (path_join (path_join output_root (''job_'' @ show_nat i))
                                  ''ranking_debug.json'') wa = (Inr rank_data, wb) \<and>
                 top_ranked rank_data = Inr (model_name, iptm) \<and>
                 pickle_load sys (path_join (path_join output_root (''job_'' @ show_nat i))
                                    (''result_'' @ model_name @ ''.pkl'')) wb = (Inr result, wc) \<and>
                 plddt result = Some a \<and>
                 x = fadd (Some iptm) (fmul (Some 0.1) (tmean (map Some a))))))) \<and>
   (get_reward sys sequences target_sequence af2 output_root w = (Inr rewards, w') \<and>
    get_reward sys2 sequences target_sequence af2' output_root v = (Inr rewards2, v') \<and>
    (\<forall>j<length sequences. j \<noteq> i0 \<longrightarrow>
       same_outcome_in_every_state sys af2 sys2 af2' target_sequence output_root j
         (sequences ! j)) \<longrightarrow>
      (\<forall>j<length sequences. j \<noteq> i0 \<longrightarrow> rewards2 ! j = rewards ! j))"
proof (intro conjI impI)
  assume "makedirs sys output_root w = (Inl err, w1)"
  then show "get_reward sys sequences target_sequence af2 output_root w = (Inl err, w1)"
    by (simp add: get_reward_unfold)
next
  assume h: "makedirs sys output_root w = (Inr (), w1) \<and>
    (\<forall>i e v. fst (print_error sys i e v) = Inr ())"
  have "\<exists>rs w2. reward_loop sys af2 target_sequence output_root 0 sequences w1 = (Inr rs, w2)"
    by (rule reward_loop_returns [OF conjunct2 [OF h]])
  then show "\<exists>rs w2. get_reward sys sequences target_sequence af2 output_root w = (Inr rs, w2)"
    using h by (simp add: get_reward_unfold)
next
  assume h: "makedirs sys output_root w = (Inr (), w1) \<and>
    get_reward sys sequences target_sequence af2 output_root w = (Inr rewards, w')"
  then have loop: "reward_loop sys af2 target_sequence output_root 0 sequences w1 = (Inr rewards, w')"
    by (auto simp: get_reward_unfold)
  show "length rewards = length sequences" by (rule reward_loop_length [OF loop])
  show "\<forall>i<length sequences.
         (\<forall>e. outcome_at sys af2 target_sequence output_root sequences w1 i = Inl e \<longrightarrow>
              rewards ! i = Some (- 100)) \<and>
         (\<forall>x. outcome_at sys af2 target_sequence output_root sequences w1 i = Inr x \<longrightarrow>
              rewards ! i = x \<and>
              (\<exists>rank_data result model_name iptm a wa wb wc.
                 json_load sys (path_join (path_join output_root (''job_'' @ show_nat i))
                                  ''ranking_debug.json'') wa = (Inr rank_data, wb) \<and>
                 top_ranked rank_data = Inr (model_name, iptm) \<and>
                 pickle_load sys (path_join (path_join output_root (''job_'' @ show_nat i))
                                    (''result_'' @ model_name @ ''.pkl'')) wb = (Inr result, wc) \<and>
                 plddt result = Some a \<and>
                 x = fadd (Some iptm) (fmul (Some 0.1) (tmean (map Some a)))))"
  proof (intro allI impI conjI)
    fix i e assume i: "i < length sequences"
      and o: "outcome_at sys af2 target_sequence output_root sequences w1 i = Inl e"
    show "rewards ! i = Some (- 100)"
      using reward_loop_nth [OF loop i] o by (simp add: outcome_at_def)
  next
    fix i x assume i: "i < length sequences"
      and o: "outcome_at sys af2 target_sequence output_root sequences w1 i = Inr x"
    show "rewards ! i = x"
      using reward_loop_nth [OF loop i] o by (simp add: outcome_at_def)
    obtain u where "score_sequence sys af2 target_sequence output_root i (sequences ! i)
            (snd (reward_loop sys af2 target_sequence output_root 0 (take i sequences) w1)) = (Inr x, u)"
      using o unfolding outcome_at_def by (metis prod.collapse)
    from score_sequence_success [OF this]
    show "(\<exists>rank_data result model_name iptm a wa wb wc.
                 json_load sys (path_join (path_join output_root (''job_'' @ show_nat i))
                                  ''ranking_debug.json'') wa = (Inr rank_data, wb) \<and>
                 top_ranked rank_data = Inr (model_name, iptm) \<and>
                 pickle_load sys (path_join (path_join output_root (''job_'' @ show_nat i))
                                    (''result_'' @ model_name @ ''.pkl'')) wb = (Inr result, wc) \<and>
                 plddt result = Some a \<and>
                 x = fadd (Some iptm) (fmul (Some 0.1) (tmean (map Some a))))"
      by blast
  qed
next
  assume h: "get_reward sys sequences target_sequence af2 output_root w = (Inr rewards, w') \<and>
    get_reward sys2 sequences target_sequence af2' output_root v = (Inr rewards2, v') \<and>
    (\<forall>j<length sequences. j \<noteq> i0 \<longrightarrow>
       same_outcome_in_every_state sys af2 sys2 af2' target_sequence output_root j
         (sequences ! j))"
  obtain wa where la: "reward_loop sys af2 target_sequence output_root 0 sequences wa = (Inr rewards, w')"
    using h by (auto simp: get_reward_unfold split: prod.splits sum.splits)
  obtain va where lb: "reward_loop sys2 af2' target_sequence output_root 0 sequences va = (Inr rewards2, v')"
    using h by (auto simp: get_reward_unfold split: prod.splits sum.splits)
  show "\<forall>j<length sequences. j \<noteq> i0 \<longrightarrow> rewards2 ! j = rewards ! j"
  proof (intro allI impI)
    fix j assume j: "j < length sequences" and ji: "j \<noteq> i0"
    define oa where "oa = fst (score_sequence sys af2 target_sequence output_root j (sequences ! j)
          (snd (reward_loop sys af2 target_sequence output_root 0 (take j sequences) wa)))"
    define ob where "ob = fst (score_sequence sys2 af2' target_sequence output_root j (sequences ! j)
          (snd (reward_loop sys2 af2' target_sequence output_root 0 (take j sequences) va)))"
    have same: "oa = ob"
      using h j ji unfolding oa_def ob_def same_outcome_in_every_state_def by blast
    have a: "case oa of Inl e \<Rightarrow> rewards ! j = Some (- 100) | Inr x \<Rightarrow> rewards ! j = x"
      using reward_loop_nth [OF la j] by (simp add: oa_def)
    have b: "case ob of Inl e \<Rightarrow> rewards2 ! j = Some (- 100) | Inr x \<Rightarrow> rewards2 ! j = x"
      using reward_loop_nth [OF lb j] by (simp add: ob_def)
    show "rewards2 ! j = rewards ! j"
      using a b same by (cases ob) simp_all
  qed
qed

theorem get_reward_per_sequence_witness:
  "makedirs example_sys ''out'' () = (Inr (), ()) \<and>
   (\<forall>i e v. fst (print_error (example_sys :: unit sys) i e v) = Inr ()) \<and>
   get_reward example_sys [''AAA'', ''CCC'', ''GGG''] ''TTT'' example_predictor ''out'' () =
     (Inr [Some 9, Some (- 100), Some 9], ()) \<and>
   outcome_at example_sys example_predictor ''TTT'' ''out'' [''AAA'', ''CCC'', ''GGG''] () 1 =
     Inl RuntimeError \<and>
   outcome_at example_sys example_predictor ''TTT'' ''out'' [''AAA'', ''CCC'', ''GGG''] () 2 =
     Inr (Some 9) \<and>
   get_reward example_sys [''AAA'', ''CCC'', ''GGG''] ''TTT''
     (\<lambda>fasta_path job_dir. return_io (Inr ())) ''out'' () =
     (Inr [Some 9, Some 9, Some 9], ()) \<and>
   same_outcome_in_every_state example_sys example_predictor (example_sys :: unit sys)
     (\<lambda>fasta_path job_dir. return_io (Inr ())) ''TTT'' ''out'' 2 ''GGG'' \<and>
   [Some 9, Some 9, Some (9::real)] ! 2 = [Some 9, Some (- 100), Some 9] ! 2"
proof -
  have mk: "makedirs example_sys ''out'' () = (Inr (), ())"
    by (simp add: example_sys_def return_io_def)
  have o1: "outcome_at example_sys example_predictor ''TTT'' ''out'' [''AAA'', ''CCC'', ''GGG''] () 1 =
     Inl RuntimeError"
    by (simp add: outcome_at_def bridge_eval example_sys_def example_predictor_def)
  have o2: "outcome_at example_sys example_predictor ''TTT'' ''out'' [''AAA'', ''CCC'', ''GGG''] () 2 =
     Inr (Some 9)"
    by (simp add: outcome_at_def bridge_eval example_sys_def example_predictor_def
        numeral_2_eq_2)
  have same: "same_outcome_in_every_state example_sys example_predictor (example_sys :: unit sys)
     (\<lambda>fasta_path job_dir. return_io (Inr ())) ''TTT'' ''out'' j ([''AAA'', ''CCC'', ''GGG''] ! j)"
    if "j < length [''AAA'', ''CCC'', ''GGG'']" and "j \<noteq> 1" for j
  proof -
    have "j = 0 \<or> j = 2" using that by simp arith
    then show ?thesis
      by (elim disjE)
         (simp_all add: same_outcome_in_every_state_def bridge_eval example_sys_def
            example_predictor_def)
  qed
  have s2: "same_outcome_in_every_state example_sys example_predictor (example_sys :: unit sys)
     (\<lambda>fasta_path job_dir. return_io (Inr ())) ''TTT'' ''out'' 2 ''GGG''"
    using same [of 2] by simp
  have prem: "get_reward example_sys [''AAA'', ''CCC'', ''GGG''] ''TTT'' example_predictor ''out'' () =
       (Inr [Some 9, Some (- 100), Some 9], ()) \<and>
     get_reward example_sys [''AAA'', ''CCC'', ''GGG''] ''TTT''
       (\<lambda>fasta_path job_dir. return_io (Inr ())) ''out'' () = (Inr [Some 9, Some 9, Some 9], ()) \<and>
     (\<forall>j<length [''AAA'', ''CCC'', ''GGG'']. j \<noteq> 1 \<longrightarrow>
        same_outcome_in_every_state example_sys example_predictor (example_sys :: unit sys)
          (\<lambda>fasta_path job_dir. return_io (Inr ())) ''TTT'' ''out'' j
          ([''AAA'', ''CCC'', ''GGG''] ! j))"
    using example_rewards example_rewards_all_succeed same by blast
  have "\<forall>j<length [''AAA'', ''CCC'', ''GGG'']. j \<noteq> 1 \<longrightarrow>
          [Some 9, Some 9, Some (9::real)] ! j = [Some 9, Some (- 100), Some 9] ! j"
    by (rule get_reward_per_sequence [where sys = example_sys and output_root = "''out''"
        and w = "()" and sequences = "[''AAA'', ''CCC'', ''GGG'']"
        and target_sequence = "''TTT''" and ?af2.0 = example_predictor
        and rewards = "[Some 9, Some (- 100), Some 9]" and w' = "()"
        and ?sys2.0 = "example_sys :: unit sys"
        and af2' = "\<lambda>fasta_path job_dir. return_io (Inr ())" and v = "()" and v' = "()"
        and ?rewards2.0 = "[Some 9, Some 9, Some 9]" and ?i0.0 = 1,
        THEN conjunct2, THEN conjunct2, THEN conjunct2, THEN mp, OF prem])
  then have "[Some 9, Some 9, Some (9::real)] ! 2 = [Some 9, Some (- 100), Some 9] ! 2"
    by simp
  moreover have "\<forall>i e v. fst (print_error (example_sys :: unit sys) i e v) = Inr ()"
    by (simp add: example_sys_def return_io_def)
  ultimately show ?thesis using mk o1 o2 example_rewards example_rewards_all_succeed s2 by simp
qed

section \<open>Reasoning about calls that may raise\<close>

lemma hoareI:
  "(\<And>st e st'. P st \<Longrightarrow> m st = (Inl e, st') \<Longrightarrow> E st') \<Longrightarrow>
   (\<And>st a st'. P st \<Longrightarrow> m st = (Inr a, st') \<Longrightarrow> Q a st') \<Longrightarrow> hoare P m Q E"
  by (auto simp: hoare_def split: prod.splits sum.splits)

lemma hoare_Inl: "hoare P m Q E \<Longrightarrow> P st \<Longrightarrow> m st = (Inl e, st') \<Longrightarrow> E st'"
  unfolding hoare_def by fastforce

lemma hoare_Inr: "hoare P m Q E \<Longrightarrow> P st \<Longrightarrow> m st = (Inr a, st') \<Longrightarrow> Q a st'"
  unfolding hoare_def by fastforce

lemma hoare_bind:
  assumes "hoare P m Q E" and "\<And>a. hoare (Q a) (f a) R E"
  shows "hoare P (bind_io m f) R E"
proof (rule hoareI)
  fix st e st' assume p: "P st" and b: "bind_io m f st = (Inl e, st')"
  obtain r st1 where Pair: "m st = (r, st1)" by fastforce
  show "E st'"
  proof -
    show ?thesis
    proof (cases r)
      case (Inl e1)
      then show ?thesis using b Pair hoare_Inl [OF assms(1) p] by (simp add: bind_io_def)
    next
      case (Inr a)
      then have "Q a st1" using Pair hoare_Inr [OF assms(1) p] by simp
      moreover have "f a st1 = (Inl e, st')" using b Pair Inr by (simp add: bind_io_def)
      ultimately show ?thesis using hoare_Inl [OF assms(2)] by blast
    qed
  qed
next
  fix st x st' assume p: "P st" and b: "bind_io m f st = (Inr x, st')"
  obtain r st1 where Pair: "m st = (r, st1)" by fastforce
  show "R x st'"
  proof -
    show ?thesis
    proof (cases r)
      case (Inl e1)
      then show ?thesis using b Pair by (simp add: bind_io_def)
    next
      case (Inr a)
      then have "Q a st1" using Pair hoare_Inr [OF assms(1) p] by simp
      moreover have "f a st1 = (Inr x, st')" using b Pair Inr by (simp add: bind_io_def)
      ultimately show ?thesis using hoare_Inr [OF assms(2)] by blast
    qed
  qed
qed

lemma hoare_return:
  "(\<And>st. P st \<Longrightarrow> (case r of Inl e \<Rightarrow> E st | Inr a \<Rightarrow> Q a st)) \<Longrightarrow> hoare P (return_io r) Q E"
  by (auto simp: hoare_def return_io_def split: sum.splits)

lemma hoare_modify: "(\<And>st. P st \<Longrightarrow> Q () (f st)) \<Longrightarrow> hoare P (modify f) Q E"
  by (simp add: hoare_def modify_def)

lemma hoare_lift_world:
  "(\<And>st w. P st \<Longrightarrow> E (st\<lparr>world := w\<rparr>)) \<Longrightarrow>
   (\<And>st w a. P st \<Longrightarrow> Q a (st\<lparr>world := w\<rparr>)) \<Longrightarrow> hoare P (lift_world m) Q E"
  by (auto simp: hoare_def lift_world_def split: prod.splits sum.splits)

lemma hoare_read_module:
  "(\<And>st. P st \<Longrightarrow> E st) \<Longrightarrow> (\<And>st m. P st \<Longrightarrow> heap st a = Some m \<Longrightarrow> Q m st) \<Longrightarrow>
   hoare P (read_module a) Q E"
  by (auto simp: hoare_def read_module_def split: option.splits)

lemma hoare_test:
  "(\<And>st. P st \<Longrightarrow> E st) \<Longrightarrow> (\<And>st. P st \<Longrightarrow> Q () st) \<Longrightarrow>
   hoare P (\<lambda>st. if c st then (Inl e, st) else (Inr (), st)) Q E"
  by (simp add: hoare_def)

lemma hoare_for_range:
  assumes "\<And>i. hoare I (body i) (\<lambda>u. I) I"
  shows "hoare I (for_range i n body) (\<lambda>u. I) I"
proof (induction n arbitrary: i)
  case 0
  show ?case by (simp add: hoare_return)
next
  case (Suc n)
  show ?case by (simp, rule hoare_bind [OF assms]) (rule Suc)
qed

lemma inv_bind:
  "hoare I m (\<lambda>u. I) I \<Longrightarrow> (\<And>a. hoare I (f a) (\<lambda>u. I) I) \<Longrightarrow>
   hoare I (bind_io m f) (\<lambda>u. I) I"
  by (rule hoare_bind)

lemma inv_return: "hoare I (return_io r) (\<lambda>u. I) I"
  by (rule hoare_return) (simp split: sum.splits)

lemma inv_modify: "(\<And>st. I st \<Longrightarrow> I (f st)) \<Longrightarrow> hoare I (modify f) (\<lambda>u. I) I"
  by (rule hoare_modify)

lemma inv_lift_world:
  "(\<And>st w. I st \<Longrightarrow> I (st\<lparr>world := w\<rparr>)) \<Longrightarrow> hoare I (lift_world m) (\<lambda>u. I) I"
  by (rule hoare_lift_world)

lemma inv_read_module: "hoare I (read_module a) (\<lambda>u. I) I"
  by (rule hoare_read_module)

lemma inv_test: "hoare I (\<lambda>st. if c st then (Inl e, st) else (Inr (), st)) (\<lambda>u. I) I"
  by (rule hoare_test)

lemma inv_case_prod:
  "(\<And>a b. hoare I (f a b) (\<lambda>u. I) I) \<Longrightarrow> hoare I (case x of (a, b) \<Rightarrow> f a b) (\<lambda>u. I) I"
  by (cases x) simp

section \<open>The reference module is never written\<close>

lemma update_module_other:
  "a \<noteq> b \<Longrightarrow> heap (update_module a f st) b = heap st b"
  by (simp add: update_module_def)

lemma update_module_fields:
  "opt_params (update_module a f st) = opt_params st"
  "checkpoints (update_module a f st) = checkpoints st"
  "all_rewards (update_module a f st) = all_rewards st"
  by (simp_all add: update_module_def)

lemma fold_update_module:
  "b \<notin> set as \<Longrightarrow>
   heap (fold (\<lambda>a. update_module a f) as st) b = heap st b \<and>
   opt_params (fold (\<lambda>a. update_module a f) as st) = opt_params st \<and>
   checkpoints (fold (\<lambda>a. update_module a f) as st) = checkpoints st"
  by (induction as arbitrary: st) (auto simp: update_module_other update_module_fields)

lemma zero_grad_frame:
  "b \<notin> set (opt_params st) \<Longrightarrow> heap (zero_grad st) b = heap st b"
  "opt_params (zero_grad st) = opt_params st"
  "checkpoints (zero_grad st) = checkpoints st"
proof -
  show "b \<notin> set (opt_params st) \<Longrightarrow> heap (zero_grad st) b = heap st b"
    by (simp add: zero_grad_def fold_update_module)
  have "\<And>as. opt_params (fold (\<lambda>a. update_module a (\<lambda>m. m\<lparr>grad := None\<rparr>)) as st) = opt_params st \<and>
        checkpoints (fold (\<lambda>a. update_module a (\<lambda>m. m\<lparr>grad := None\<rparr>)) as st) = checkpoints st"
  proof -
    fix as
    show "opt_params (fold (\<lambda>a. update_module a (\<lambda>m. m\<lparr>grad := None\<rparr>)) as st) = opt_params st \<and>
        checkpoints (fold (\<lambda>a. update_module a (\<lambda>m. m\<lparr>grad := None\<rparr>)) as st) = checkpoints st"
      by (induction as arbitrary: st) (auto simp: update_module_fields)
  qed
  then show "opt_params (zero_grad st) = opt_params st" "checkpoints (zero_grad st) = checkpoints st"
    by (simp_all add: zero_grad_def)
qed

lemma optimizer_step_loop_frame:
  "b \<notin> set as \<Longrightarrow> optimizer_step_loop ext as st = (r, st') \<Longrightarrow>
   heap st' b = heap st b \<and> opt_params st' = opt_params st \<and> checkpoints st' = checkpoints st"
proof (induction ext as st rule: optimizer_step_loop.induct)
  case (1 ext st)
  then show ?case by simp
next
  case (2 ext a as st)
  then have ab: "a \<noteq> b" and bas: "b \<notin> set as" by auto
  show ?case
  proof (cases rule: option.exhaust [of "heap st a"])
    case None
    then show ?thesis using 2 bas by simp
  next
    case (Some m)
    show ?thesis
    proof (cases rule: option.exhaust [of "grad m"])
      case None
      then show ?thesis using 2 bas Some by simp
    next
      case g: (Some g)
      show ?thesis
      proof (cases rule: sum.exhaust [of "adamw_step ext CONFIG_learning_rate CONFIG_adam_betas
                       CONFIG_epsilon CONFIG_weight_decay (params m) g (opt_state st)"])
        case (Inl e)
        then show ?thesis using "2.prems" Some g by simp
      next
        case (Inr po)
        obtain p' o' where po: "po = (p', o')" by fastforce
        have "heap st' b = heap ((update_module a (\<lambda>m. m\<lparr>params := p'\<rparr>) st)\<lparr>opt_state := o'\<rparr>) b \<and>
              opt_params st' = opt_params ((update_module a (\<lambda>m. m\<lparr>params := p'\<rparr>) st)\<lparr>opt_state := o'\<rparr>) \<and>
              checkpoints st' = checkpoints ((update_module a (\<lambda>m. m\<lparr>params := p'\<rparr>) st)\<lparr>opt_state := o'\<rparr>)"
          using "2.IH"(3) [OF Some g Inr [unfolded po] refl bas] "2.prems"(2) Some g Inr po
          by simp
        then show ?thesis using ab by (simp add: update_module_other update_module_fields)
      qed
    qed
  qed
qed

lemma train_step_frame:
  assumes "policy_model \<noteq> ref_model" and "ref_model \<notin> set ops"
  shows "hoare (\<lambda>st. heap st ref_model = m0 \<and> opt_params st = ops \<and> checkpoints st = c0)
           (train_step ext tok target out policy_model ref_model)
           (\<lambda>u st. heap st ref_model = m0 \<and> opt_params st = ops \<and> checkpoints st = c0)
           (\<lambda>st. heap st ref_model = m0 \<and> opt_params st = ops \<and> checkpoints st = c0)"
proof -
  define I :: "('a, 'b, 'c, 'd) state \<Rightarrow> bool"
    where "I = (\<lambda>st. heap st ref_model = m0 \<and> opt_params st = ops \<and> checkpoints st = c0)"
  have upd: "I (update_module policy_model f st)" if "I st" for f st
    using that assms(1) by (simp add: I_def update_module_other update_module_fields)
  have bw: "hoare I (loss_backward ext policy_model seqs adv rn) (\<lambda>u. I) I" for seqs adv rn
  proof (rule hoareI)
    fix st e st' assume "I st" and "loss_backward ext policy_model seqs adv rn st = (Inl e, st')"
    then show "I st'"
      by (auto simp: loss_backward_def split: option.splits if_splits sum.splits)
  next
    fix st a st' assume i: "I st" and "loss_backward ext policy_model seqs adv rn st = (Inr a, st')"
    then have "st' = st \<or> (\<exists>f. st' = update_module policy_model f st)"
      by (auto simp: loss_backward_def split: option.splits if_splits sum.splits)
    then show "I st'" using i upd by auto
  qed
  have os: "hoare I (optimizer_step ext) (\<lambda>u. I) I"
  proof (rule hoareI)
    fix st e st' assume i: "I st" and r: "optimizer_step ext st = (Inl e, st')"
    have "ref_model \<notin> set (opt_params st)" using i assms(2) by (simp add: I_def)
    from optimizer_step_loop_frame [OF this r [unfolded optimizer_step_def]] i
    show "I st'" by (simp add: I_def)
  next
    fix st a st' assume i: "I st" and r: "optimizer_step ext st = (Inr a, st')"
    have "ref_model \<notin> set (opt_params st)" using i assms(2) by (simp add: I_def)
    from optimizer_step_loop_frame [OF this r [unfolded optimizer_step_def]] i
    show "I st'" by (simp add: I_def)
  qed
  have zg: "I (zero_grad st)" if "I st" for st
    using that assms(2) by (simp add: I_def zero_grad_frame)
  have "hoare I (train_step ext tok target out policy_model ref_model) (\<lambda>u. I) I"
    unfolding train_step_def
    by (intro inv_bind inv_modify inv_return inv_lift_world inv_read_module inv_test bw os
        upd zg)
       (simp_all add: I_def)
  then show ?thesis by (simp add: I_def)
qed


section \<open>Checkpoints\<close>












section \<open>Example runs\<close>

lemma example_ext_sel:
  "OA_DM_38M example_ext = return_io (Inr (0, example_tokenizer))"
  "forward example_ext p mode = flat_model"
  "generate_oaardm example_ext p tok a b = return_io (Inr [''AB'', ''A''])"
  "backward example_ext p seqs adv rn beta = Inr 1"
  "adamw_init example_ext = ()"
  "adamw_step example_ext rate betas eps decay p g s = Inr (p + g, s)"
  "torch_save example_ext p path = return_io (Inr ())"
  "os_ops example_ext = example_sys"
  "os_system example_ext command = return_io (Inr ())"
  by (simp_all add: example_ext_def)

lemma failing_ext_sel:
  "OA_DM_38M failing_ext = return_io (Inr (0, example_tokenizer))"
  "forward failing_ext p mode = flat_model"
  "generate_oaardm failing_ext p tok a b =
     (if p = 1 then return_io (Inl RuntimeError) else return_io (Inr [''AB'', ''A'']))"
  "backward failing_ext p seqs adv rn beta = Inr 1"
  "adamw_init failing_ext = ()"
  "adamw_step failing_ext rate betas eps decay p g s = Inr (p + g, s)"
  "torch_save failing_ext p path = return_io (Inr ())"
  "os_ops failing_ext = example_sys"
  "os_system failing_ext command = return_io (Inr ())"
  by (simp_all add: failing_ext_def example_ext_def)

lemma example_batch_rewards:
  "get_reward example_sys [''AB'', ''A''] t (af2_predict_fn example_ext) out w =
     (Inr [Some 9, Some 9], ())"
  "get_reward example_sys [''AB'', ''A''] t (af2_predict_fn failing_ext) out w =
     (Inr [Some 9, Some 9], ())"
  by (simp_all add: get_reward_unfold example_sys_def example_ext_sel failing_ext_sel
      af2_predict_fn_def score_sequence_def try_sequence_def catch_io_def bind_io_def
      return_io_def top_ranked_def avg_plddt_of_def tmean_def)

lemma example_batch_advantages: "advantages_of [Some 9, Some 9] = [Some 0, Some 0]"
proof -
  have "2 \<le> length [9, 9 :: real]" by simp
  from advantages_finite [OF this] show ?thesis
    by (simp add: mean_r_def)
qed

lemma example_batch_loss: "grpo_loss [Some 0, Some 0] [Some 0, Some 0] b = Inr (Some 0)"
  by (simp add: grpo_loss_def policy_objective_def tmul_def kl_penalty_def tmean_def)

lemma example_step:
  assumes "heap st 0 \<noteq> None" and "heap st 1 \<noteq> None" and "opt_params st = [0]"
    and "requires_grad (the (heap st 0))"
  shows "train_step example_ext example_tokenizer t out 0 (Suc 0) st =
    (Inr (), st\<lparr>heap := (heap st)(0 \<mapsto> (the (heap st 0))\<lparr>training := True, grad := Some 1,
          params := params (the (heap st 0)) + 1\<rparr>),
       all_rewards := all_rewards st @ [Some 9, Some 9],
       total_loss := fadd (total_loss st) (Some 0)\<rparr>)"
proof -
  obtain m0 m1 where "heap st 0 = Some m0" "heap st 1 = Some m1" using assms(1,2) by auto
  then show ?thesis using assms(3,4)
    by (simp add: train_step_def bind_io_def modify_def read_module_def update_module_def
        lift_world_def example_ext_sel return_io_def example_batch_rewards
        example_batch_advantages calculate_nll_flat_example log_ratios_of_self
        example_batch_loss zero_grad_def loss_backward_def optimizer_step_def)
qed



lemma example_main:
  "fst (main_with 2 1 example_ext (init_state () ())) = Inr () \<and>
   checkpoints (snd (main_with 2 1 example_ext (init_state () ()))) =
     [(''evodiff_grpo_checkpoint_epoch_1'', 1), (''evodiff_grpo_checkpoint_epoch_2'', 2)] \<and>
   heap (snd (main_with 2 1 example_ext (init_state () ()))) 1 =
     Some \<lparr>params = 0, requires_grad = False, training = False, grad = None\<rparr> \<and>
   heap (snd (main_with 2 1 example_ext (init_state () ()))) 0 =
     Some \<lparr>params = 2, requires_grad = True, training = True, grad = Some 1\<rparr>"
  by (simp add: main_with_def load_model_def init_state_def example_ext_sel return_io_def
      bind_io_def modify_def update_module_def run_epoch_def numeral_2_eq_2 example_step
      lift_world_def read_module_def example_sys_def checkpoint_dir_def show_nat_digit
      digit_char_def)



section \<open>One checkpoint per completed epoch\<close>







section \<open>The reference parameters over a run\<close>

lemma train_step_ref:
  assumes "policy_model \<noteq> ref_model" and "ref_model \<notin> set ops"
  shows "hoare (\<lambda>st. heap st ref_model = m0 \<and> opt_params st = ops)
           (train_step ext tok target out policy_model ref_model)
           (\<lambda>u st. heap st ref_model = m0 \<and> opt_params st = ops)
           (\<lambda>st. heap st ref_model = m0 \<and> opt_params st = ops)"
proof (rule hoareI)
  fix st e st'
  assume p: "heap st ref_model = m0 \<and> opt_params st = ops"
    and r: "train_step ext tok target out policy_model ref_model st = (Inl e, st')"
  have "heap st' ref_model = m0 \<and> opt_params st' = ops \<and> checkpoints st' = checkpoints st"
    by (rule hoare_Inl [OF train_step_frame [OF assms] _ r]) (simp add: p)
  then show "heap st' ref_model = m0 \<and> opt_params st' = ops" by simp
next
  fix st a st'
  assume p: "heap st ref_model = m0 \<and> opt_params st = ops"
    and r: "train_step ext tok target out policy_model ref_model st = (Inr a, st')"
  have "heap st' ref_model = m0 \<and> opt_params st' = ops \<and> checkpoints st' = checkpoints st"
    by (rule hoare_Inr [OF train_step_frame [OF assms] _ r]) (simp add: p)
  then show "heap st' ref_model = m0 \<and> opt_params st' = ops" by simp
qed

lemma run_epoch_ref:
  assumes "policy_model \<noteq> ref_model" and "ref_model \<notin> set ops"
  shows "hoare (\<lambda>st. heap st ref_model = m0 \<and> opt_params st = ops)
           (run_epoch ext tok target out policy_model ref_model steps epoch)
           (\<lambda>u st. heap st ref_model = m0 \<and> opt_params st = ops)
           (\<lambda>st. heap st ref_model = m0 \<and> opt_params st = ops)"
proof -
  define I :: "('a, 'b, 'c, 'd) state \<Rightarrow> bool"
    where "I = (\<lambda>st. heap st ref_model = m0 \<and> opt_params st = ops)"
  have ts: "hoare I (for_range 0 steps
              (\<lambda>step. train_step ext tok target out policy_model ref_model)) (\<lambda>u. I) I"
    unfolding I_def by (rule hoare_for_range) (rule train_step_ref [OF assms])
  have "hoare I (run_epoch ext tok target out policy_model ref_model steps epoch) (\<lambda>u. I) I"
    unfolding run_epoch_def
    by (intro inv_bind inv_modify inv_lift_world inv_read_module inv_test ts)
       (simp_all add: I_def)
  then show ?thesis by (simp add: I_def)
qed

text \<open>
  Claim C8. A training step, whether it returns or raises, leaves the reference
  module as it was (parameters, flags and gradient) and leaves the optimizer's list of
  modules as it was, provided the reference is another object than the policy and is
  not among the modules the optimizer was constructed over. In \<open>main\<close> both hold:
  the two loads give two objects and the optimizer is constructed over the policy
  alone; so when both loads succeed and the alphabets agree, at the end of the run,
  completed or aborted, the reference module still holds the parameters it was loaded
  with, frozen and in evaluation mode.
\<close>

theorem reference_never_updated:
  "(policy_model \<noteq> ref_model \<and> ref_model \<notin> set (opt_params st) \<and>
    train_step ext tok target out policy_model ref_model st = (r, st') \<longrightarrow>
      heap st' ref_model = heap st ref_model \<and> opt_params st' = opt_params st) \<and>
   (OA_DM_38M ext w = (Inr (p0, tok0), w1) \<and> OA_DM_38M ext w1 = (Inr (p1, tok1), w2) \<and>
    alphabet tok0 = alphabet tok1 \<and>
    main_with epochs steps ext (init_state o0 w) = (r2, st2) \<longrightarrow>
      heap st2 1 = Some \<lparr>params = p1, requires_grad = False, training = False, grad = None\<rparr> \<and>
      opt_params st2 = [0])"
proof (intro conjI impI)
  assume h: "policy_model \<noteq> ref_model \<and> ref_model \<notin> set (opt_params st) \<and>
    train_step ext tok target out policy_model ref_model st = (r, st')"
  then have a: "policy_model \<noteq> ref_model" and b: "ref_model \<notin> set (opt_params st)"
    and t: "train_step ext tok target out policy_model ref_model st = (r, st')" by simp_all
  have "heap st' ref_model = heap st ref_model \<and> opt_params st' = opt_params st"
  proof (cases r)
    case (Inl e)
    show ?thesis by (rule hoare_Inl [OF train_step_ref [OF a b] _ t [unfolded Inl]]) simp
  next
    case (Inr u)
    show ?thesis by (rule hoare_Inr [OF train_step_ref [OF a b] _ t [unfolded Inr]]) simp
  qed
  then show "heap st' ref_model = heap st ref_model" and "opt_params st' = opt_params st"
    by simp_all
next
  assume h: "OA_DM_38M ext w = (Inr (p0, tok0), w1) \<and> OA_DM_38M ext w1 = (Inr (p1, tok1), w2) \<and>
    alphabet tok0 = alphabet tok1 \<and>
    main_with epochs steps ext (init_state o0 w) = (r2, st2)"
  define mref :: "('a, 'b) module" where
    "mref = \<lparr>params = p1, requires_grad = False, training = False, grad = None\<rparr>"
  define s3 :: "('a, 'b, 'c, 'd) state" where
    "s3 = \<lparr>heap = ((\<lambda>a. None)(0 \<mapsto> \<lparr>params = p0, requires_grad = True, training = True,
                    grad = None\<rparr>))(1 \<mapsto> mref),
           next_addr = 2, world = w2, opt_params = [0], opt_state = adamw_init ext,
           total_loss = Some 0, all_rewards = [], checkpoints = []\<rparr>"
  have run: "main_with epochs steps ext (init_state o0 w) =
        for_range 0 epochs
          (run_epoch ext tok0 target_sequence_GZMK ''af2_multimer_outputs'' 0 1 steps) s3"
    using h
    by (simp add: main_with_def bind_io_def load_model_def init_state_def return_io_def
        modify_def update_module_def s3_def mref_def numeral_2_eq_2)
  have pre: "heap s3 1 = Some mref \<and> opt_params s3 = [0]" by (simp add: s3_def)
  have loop: "hoare (\<lambda>st. heap st 1 = Some mref \<and> opt_params st = [0])
      (for_range 0 epochs
         (run_epoch ext tok0 target_sequence_GZMK ''af2_multimer_outputs'' 0 1 steps))
      (\<lambda>u st. heap st 1 = Some mref \<and> opt_params st = [0])
      (\<lambda>st. heap st 1 = Some mref \<and> opt_params st = [0])"
    by (rule hoare_for_range) (rule run_epoch_ref, simp_all)
  have fin: "for_range 0 epochs
          (run_epoch ext tok0 target_sequence_GZMK ''af2_multimer_outputs'' 0 1 steps) s3 = (r2, st2)"
    using h run by simp
  have "heap st2 1 = Some mref \<and> opt_params st2 = [0]"
  proof (cases r2)
    case (Inl e)
    show ?thesis by (rule hoare_Inl [OF loop pre fin [unfolded Inl]])
  next
    case (Inr u)
    show ?thesis by (rule hoare_Inr [OF loop pre fin [unfolded Inr]])
  qed
  then show "heap st2 1 = Some \<lparr>params = p1, requires_grad = False, training = False, grad = None\<rparr>"
    and "opt_params st2 = [0]"
    by (simp_all add: mref_def)
qed

theorem reference_never_updated_witness:
  "(0::nat) \<noteq> 1 \<and>
   fst (train_step example_ext example_tokenizer ''T'' ''out'' 0 1 example_state) = Inr () \<and>
   heap (snd (train_step example_ext example_tokenizer ''T'' ''out'' 0 1 example_state)) 1 =
     heap example_state 1 \<and>
   heap (snd (train_step example_ext example_tokenizer ''T'' ''out'' 0 1 example_state)) 0 =
     Some \<lparr>params = 1, requires_grad = True, training = True, grad = Some 1\<rparr> \<and>
   OA_DM_38M example_ext () = (Inr (0, example_tokenizer), ()) \<and>
   fst (main_with 2 1 example_ext (init_state () ())) = Inr () \<and>
   heap (snd (main_with 2 1 example_ext (init_state () ()))) 1 =
     Some \<lparr>params = 0, requires_grad = False, training = False, grad = None\<rparr> \<and>
   heap (snd (main_with 2 1 example_ext (init_state () ()))) 0 =
     Some \<lparr>params = 2, requires_grad = True, training = True, grad = Some 1\<rparr> \<and>
   opt_params (snd (main_with 2 1 example_ext (init_state () ()))) = [0]"
proof -
  have l: "OA_DM_38M example_ext () = (Inr (0, example_tokenizer), ())"
    by (simp add: example_ext_sel return_io_def)
  have a: "main_with 2 1 example_ext (init_state () ()) =
        (Inr (), snd (main_with 2 1 example_ext (init_state () ())))"
    using example_main by (simp add: prod_eq_iff)
  have t: "train_step example_ext example_tokenizer ''T'' ''out'' 0 1 example_state =
        (Inr (), example_state\<lparr>heap := (heap example_state)
           (0 \<mapsto> \<lparr>params = 1, requires_grad = True, training = True, grad = Some 1\<rparr>),
           all_rewards := [Some 9, Some 9], total_loss := Some 0\<rparr>)"
    using example_step [of example_state "''T''" "''out''"] by (simp add: example_state_def)
  have o: "opt_params (snd (main_with 2 1 example_ext (init_state () ()))) = [0]"
    using reference_never_updated [where ext = example_ext and w = "()" and ?w1.0 = "()"
        and ?w2.0 = "()" and ?p0.0 = 0 and ?p1.0 = 0 and ?tok0.0 = example_tokenizer
        and ?tok1.0 = example_tokenizer and epochs = 2 and steps = 1 and ?o0.0 = "()"
        and ?r2.0 = "Inr ()" and ?st2.0 = "snd (main_with 2 1 example_ext (init_state () ()))"]
      l a
    by simp
  have f: "heap (snd (train_step example_ext example_tokenizer ''T'' ''out'' 0 1 example_state)) 1 =
        heap example_state 1"
    using reference_never_updated [where policy_model = 0 and ref_model = 1
        and st = example_state and ext = example_ext and tok = example_tokenizer
        and target = "''T''" and out = "''out''" and r = "Inr ()"
        and st' = "snd (train_step example_ext example_tokenizer ''T'' ''out'' 0 1 example_state)"]
      t
    by (simp add: example_state_def)
  show ?thesis using l example_main t o f by simp
qed

end
